theory Spec2Isabelle
  imports Main "HOL-Library.AList"
begin

section \<open>Enumerations (src/types/enums.ts)\<close>

datatype SdkErrorTypes = generic | initialization | http | invalid_options | not_supported | session

datatype LogLevels = log | debug | info | warn | error

datatype SessionTypes = softphone | collaborateVideo | acdScreenShare

text \<open>
  The browser's string unions: a track's \<open>kind\<close> is \<open>'audio'\<close> or \<open>'video'\<close>, a device's
  \<open>kind\<close> is \<open>'audioinput'\<close>, \<open>'audiooutput'\<close> or \<open>'videoinput'\<close>.
  \<open>kindSlice5\<close> is \<open>d.kind.slice(0, 5)\<close>.
\<close>

datatype TrackKind = audio | video

datatype MediaDeviceKind = audioinput | audiooutput | videoinput

fun kindSlice5 :: "MediaDeviceKind \<Rightarrow> TrackKind" where
  "kindSlice5 audioinput = audio"
| "kindSlice5 audiooutput = audio"
| "kindSlice5 videoinput = video"

section \<open>Interfaces (src/types/interfaces.ts)\<close>

record IConversationParticipant =
  p_id :: string
  p_address :: string
  p_purpose :: string
  p_state :: string
  p_direction :: string
  p_userId :: "string option"
  p_muted :: bool
  p_confined :: bool

record MediaStreamTrack =
  t_id :: string
  t_kind :: TrackKind
  t_label :: string

text \<open>An \<open>RTCRtpSender\<close> is read only through \<open>sender.track\<close>, which may be null.\<close>

type_synonym RTCRtpSender = "MediaStreamTrack option"

record MediaDeviceInfo =
  d_deviceId :: string
  d_kind :: MediaDeviceKind
  d_label :: string

text \<open>
  A live session of the transport. \<open>js_senders\<close> is \<open>session.pc.getSenders()\<close>; a
  \<open>MediaStream\<close> is the list of its tracks; \<open>js_outputSinkId\<close> is
  \<open>session._outputAudioElement.sinkId\<close> when the element is attached. Optional fields
  are options: \<open>None\<close> is \<open>undefined\<close>.
\<close>

record IJingleSession =
  js_id :: string
  js_peerID :: string
  js_conversationId :: string
  js_sessionType :: "SessionTypes option"
  js_active :: bool
  js_senders :: "RTCRtpSender list"
  js_pcParticipant :: "IConversationParticipant option"
  js_outboundStream :: "MediaStreamTrack list option"
  js_screenShareStream :: "MediaStreamTrack list option"
  js_outputSinkId :: "string option"

record ISessionInfo =
  si_sessionId :: string
  si_autoAnswer :: bool
  si_fromJid :: string
  si_conversationId :: string
  si_originalRoomJid :: "string option"
  si_fromUserId :: "string option"

record IPendingSession =
  ps_id :: string
  ps_autoAnswer :: bool
  ps_address :: string
  ps_conversationId :: string
  ps_sessionType :: SessionTypes
  ps_originalRoomJid :: "string option"
  ps_fromUserId :: "string option"

text \<open>
  \<open>IEndSessionRequest\<close> and the parameter of \<open>getSession\<close> have the same shape:
  \<open>endSession\<close> hands its request to \<open>getSession\<close> as it is.
\<close>

record IEndSessionRequest =
  e_id :: "string option"
  e_conversationId :: "string option"


text \<open>
  What a property read \<open>object[key]\<close> on a plain object (\<open>{}\<close>) finds: a value stored
  under the key, or, when nothing is stored there, the member of that name that every
  plain object inherits from \<open>Object.prototype\<close> (a function, or the prototype itself
  for \<open>__proto__\<close>). An inherited member is truthy and has none of the fields of a
  session.
\<close>

datatype 'a Member = Own 'a | Inherited string

definition objectPrototypeNames :: "string list" where
  "objectPrototypeNames =
     [''constructor'', ''__defineGetter__'', ''__defineSetter__'', ''hasOwnProperty'',
      ''__lookupGetter__'', ''__lookupSetter__'', ''isPrototypeOf'', ''propertyIsEnumerable'',
      ''toString'', ''valueOf'', ''__proto__'', ''toLocaleString'']"

definition objectMember :: "(string \<rightharpoonup> 'a) \<Rightarrow> string \<Rightarrow> 'a Member option" where
  "objectMember own key =
     (case own key of
        Some v \<Rightarrow> Some (Own v)
      | None \<Rightarrow> if key \<in> set objectPrototypeNames then Some (Inherited key) else None)"

record GetSessionHandlerParams =
  gh_sessionInfo :: "ISessionInfo option"
  gh_sessionType :: "SessionTypes option"
  gh_jingleSession :: "IJingleSession Member option"

text \<open>A device id argument is \<open>string | boolean | null\<close>; an absent field is \<open>None\<close>.\<close>

datatype DeviceIdArg = DevString string | DevBool bool | DevNull

record IUpdateOutgoingMedia =
  uo_sessionId :: "string option"
  uo_videoDeviceId :: "DeviceIdArg option"
  uo_audioDeviceId :: "DeviceIdArg option"

record EnumeratedDevices =
  videoDevices :: "MediaDeviceInfo list"
  audioDevices :: "MediaDeviceInfo list"
  outputDevices :: "MediaDeviceInfo list"

section \<open>Errors, promises and calls to collaborators\<close>

text \<open>
  Modelled from the spec: \<open>throwSdkError\<close> and \<open>createAndEmitSdkError\<close> (utils, not
  among the sources) raise an error of the given kind that carries the message and the
  structured context handed to them. \<open>TypeError\<close> is the exception of the runtime on a
  property read of \<open>undefined\<close>; \<open>OtherError\<close> is a rejection of a collaborator.
\<close>

datatype JsError =
    SdkError SdkErrorTypes string ErrorDetails
  | TypeError string
  | OtherError string
and ErrorDetails =
    NoDetails
  | GetSessionDetails IEndSessionRequest
  | GetSessionHandlerDetails GetSessionHandlerParams
  | EndSessionFallbackDetails string JsError
  | ConnectedParticipantDetails string string SessionTypes string
  | ParticipantDetails string string SessionTypes

fun errorType :: "JsError \<Rightarrow> SdkErrorTypes option" where
  "errorType (SdkError k m d) = Some k"
| "errorType (TypeError m) = None"
| "errorType (OtherError m) = None"

text \<open>
  The result of an asynchronous function: it fulfils, it rejects (an exception thrown
  in an \<open>async\<close> body rejects its promise), or it never settles.
\<close>

datatype 'a Promise = Fulfilled 'a | Rejected JsError | Pending

text \<open>
  \<open>Promise.all\<close>: rejected as soon as one member is, pending while one is pending and
  none is rejected. When several members reject, the runtime reports the one that rejects
  first in time; the model reports the first in the list.
\<close>

fun firstRejected :: "unit Promise list \<Rightarrow> JsError option" where
  "firstRejected [] = None"
| "firstRejected (Rejected e # ps) = Some e"
| "firstRejected (p # ps) = firstRejected ps"

definition Promise_all :: "unit Promise list \<Rightarrow> unit Promise" where
  "Promise_all ps =
     (case firstRejected ps of
        Some e \<Rightarrow> Rejected e
      | None \<Rightarrow> if Pending \<in> set ps then Pending else Fulfilled ())"

text \<open>
  Every call that leaves the session manager or the softphone handler is recorded, in
  the order the code issues it: log lines, the hooks of the resolved session handler (named
  by the handler's session type), calls on tracks and streams, the SDK's own
  \<open>updateOutgoingMedia\<close>, REST requests and the transport's notifications.
\<close>

datatype Effect =
    Log LogLevels string
  | HandlePropose SessionTypes IPendingSession
  | HandlerAcceptSession SessionTypes string
  | HandlerEndSession SessionTypes string
  | HandlerSetVideoMute SessionTypes string bool
  | HandlerSetAudioMute SessionTypes string bool
  | TrackStop MediaStreamTrack
  | HandlerRemoveMediaFromSession SessionTypes string MediaStreamTrack
  | OutboundStreamRemoveTrack string MediaStreamTrack
  | SdkUpdateOutgoingMedia IUpdateOutgoingMedia
  | HandlerUpdateOutputDevice SessionTypes string string
  | RequestApiGet string
  | RequestApiPatch string string string
  | OnceTerminated string
  | SuperEndSession string

fun isLog :: "Effect \<Rightarrow> bool" where
  "isLog (Log l m) = True"
| "isLog e = False"

fun isHandlePropose :: "Effect \<Rightarrow> bool" where
  "isHandlePropose (HandlePropose t p) = True"
| "isHandlePropose e = False"

text \<open>
  The collaborators, as parameters. The session handlers' base class, the video and
  screen-share handlers, \<open>utils\<close>, \<open>media-utils\<close> and the REST client are not among the
  sources:
  \<^item> \<open>shouldHandleSessionByJid t jid\<close>: the address pattern of the handler of type \<open>t\<close>;
  \<^item> \<open>handlerCall e\<close>: how the promise of the recorded call \<open>e\<close> (a hook of a
    handler, or the SDK's \<open>updateOutgoingMedia\<close>) settles;
  \<^item> \<open>handlerRegistry e\<close>: what an awaited hook does to the pending-session registry
    (a handler holds a reference to the session manager; the softphone handler's
    \<open>handlePropose\<close> goes through the base class's \<open>handlePropose\<close> and
    \<open>proceedWithSession\<close>);
  \<^item> \<open>getValidDeviceId\<close>, \<open>getEnumeratedDevices\<close>, \<open>hasOutputDeviceSupport\<close>: the values
    the helpers of \<open>media-utils\<close> resolve to (\<open>None\<close> is \<open>undefined\<close>);
  \<^item> \<open>getSendersByTrackType t s k\<close>: the helper of the handler of type \<open>t\<close>;
  \<^item> \<open>requestApiGet c\<close>: the participants of conversation \<open>c\<close> as the REST response
    lists them, each already projected to the fields the handler picks;
    \<open>requestApiPatch c p v\<close>: the response to the patch of participant \<open>p\<close> with the
    state \<open>v\<close>; \<open>terminated sid\<close>: whether
    the transport's "terminated" notification of the session arrives;
    \<open>superEndSession\<close>: the base handler's \<open>endSession\<close>; \<open>personDetailsId\<close>: the local
    user's id.
\<close>

record Sdk =
  shouldHandleSessionByJid :: "SessionTypes \<Rightarrow> string \<Rightarrow> bool"
  handlerCall :: "Effect \<Rightarrow> unit Promise"
  handlerRegistry :: "Effect \<Rightarrow> (string \<rightharpoonup> IPendingSession) \<Rightarrow> (string \<rightharpoonup> IPendingSession)"
  getValidDeviceId :: "MediaDeviceKind \<Rightarrow> DeviceIdArg \<Rightarrow> string option"
  getEnumeratedDevices :: EnumeratedDevices
  hasOutputDeviceSupport :: bool
  getSendersByTrackType :: "SessionTypes \<Rightarrow> IJingleSession \<Rightarrow> TrackKind \<Rightarrow> RTCRtpSender list"
  requestApiGet :: "string \<Rightarrow> IConversationParticipant list Promise"
  requestApiPatch :: "string \<Rightarrow> string \<Rightarrow> string \<Rightarrow> unit Promise"
  terminated :: "string \<Rightarrow> bool"
  superEndSession :: "string \<Rightarrow> unit Promise"
  personDetailsId :: string

section \<open>The session manager (src/sessions/session-manager.ts)\<close>

record BaseSessionHandler =
  sessionType :: SessionTypes
  disabled :: bool

text \<open>
  \<open>pendingSessions\<close> is the object keyed by session id; \<open>jingleSessions\<close> is the
  transport's collection \<open>jingle.sessions\<close>, an object whose \<open>Object.values\<close> come in
  insertion order (session ids are not array indices), so an association list. Both are
  plain objects: \<open>pendingSessions\<close> is created as \<open>{}\<close>, and \<open>jingle.sessions\<close>, which
  the transport library owns, is read here as one (\<open>sessions[id]\<close>, \<open>Object.values\<close>).
\<close>

record SessionManager =
  sessionHandlers :: "BaseSessionHandler list"
  pendingSessions :: "string \<rightharpoonup> IPendingSession"
  jingleSessions :: "(string \<times> IJingleSession) list"

text \<open>\<open>this.pendingSessions[sessionId]\<close>, a read on the plain object of line 30.\<close>

definition getPendingSession ::
  "SessionManager \<Rightarrow> string \<Rightarrow> IPendingSession Member option" where
  "getPendingSession sm sessionId = objectMember (pendingSessions sm) sessionId"

definition removePendingSession :: "string \<Rightarrow> SessionManager \<Rightarrow> SessionManager" where
  "removePendingSession sessionId sm =
     sm\<lparr>pendingSessions := (pendingSessions sm)(sessionId := None)\<rparr>"

text \<open>
  \<open>getSession\<close>: a truthy \<open>params.id\<close> (defined and not the empty string) is read as a
  key of \<open>jingle.sessions\<close>, a plain object, so the read also finds inherited members;
  otherwise the first session with the conversation id is taken from \<open>Object.values\<close>,
  which lists stored sessions only. Whatever is found and truthy is returned.
\<close>

definition getSession ::
  "SessionManager \<Rightarrow> IEndSessionRequest \<Rightarrow> JsError + IJingleSession Member" where
  "getSession sm params =
     (let byConversation =
            map_option Own
              (find (\<lambda>s. Some (js_conversationId s) = e_conversationId params)
                 (map snd (jingleSessions sm)));
          found =
            (case e_id params of
               Some i \<Rightarrow>
                 if i \<noteq> [] then objectMember (map_of (jingleSessions sm)) i else byConversation
             | None \<Rightarrow> byConversation)
      in case found of
           None \<Rightarrow> Inl (SdkError session ''Unable to find session'' (GetSessionDetails params))
         | Some s \<Rightarrow> Inr s)"

definition getAllActiveSessions :: "SessionManager \<Rightarrow> IJingleSession list" where
  "getAllActiveSessions sm = filter js_active (map snd (jingleSessions sm))"

text \<open>
  \<open>(params.sessionInfo && params.sessionInfo.fromJid) ||
    (params.jingleSession && params.jingleSession.peerID)\<close>: the first of the two that is
  a non-empty string. An inherited member has no \<open>peerID\<close>.
\<close>

definition fromJidOf :: "GetSessionHandlerParams \<Rightarrow> string option" where
  "fromJidOf params =
     (case (case gh_sessionInfo params of
              Some si \<Rightarrow> if si_fromJid si \<noteq> [] then Some (si_fromJid si) else None
            | None \<Rightarrow> None) of
        Some j \<Rightarrow> Some j
      | None \<Rightarrow>
          (case gh_jingleSession params of
             Some (Own js) \<Rightarrow> if js_peerID js \<noteq> [] then Some (js_peerID js) else None
           | Some (Inherited name) \<Rightarrow> None
           | None \<Rightarrow> None))"

definition getSessionHandler ::
  "Sdk \<Rightarrow> SessionManager \<Rightarrow> GetSessionHandlerParams \<Rightarrow> JsError + BaseSessionHandler" where
  "getSessionHandler sdk sm params =
     (case gh_sessionType params of
        Some t \<Rightarrow>
          (case find (\<lambda>h. sessionType h = t) (sessionHandlers sm) of
             None \<Rightarrow> Inl (SdkError session ''Failed to find session handler for session''
                         (GetSessionHandlerDetails params))
           | Some h \<Rightarrow> Inr h)
      | None \<Rightarrow>
          (case fromJidOf params of
             None \<Rightarrow> Inl (SdkError generic
                         ''getSessionHandler was called without any identifying information''
                         (GetSessionHandlerDetails params))
           | Some fromJid \<Rightarrow>
               (case find (\<lambda>h. shouldHandleSessionByJid sdk (sessionType h) fromJid)
                       (sessionHandlers sm) of
                  None \<Rightarrow> Inl (SdkError session ''Failed to find session handler for session''
                              (GetSessionHandlerDetails params))
                | Some h \<Rightarrow> Inr h)))"

definition forFound :: "IJingleSession Member \<Rightarrow> GetSessionHandlerParams" where
  "forFound found =
     \<lparr>gh_sessionInfo = None, gh_sessionType = None, gh_jingleSession = Some found\<rparr>"

definition forJingleSession :: "IJingleSession \<Rightarrow> GetSessionHandlerParams" where
  "forJingleSession s = forFound (Own s)"

text \<open>
  \<open>getSessionHandler({ jingleSession: session })\<close> on what \<open>getSession\<close> returned. For a
  session it is the lookup by its peer address. An inherited member has no peer address,
  so the lookup takes its first throw; the callers go on with the session only after the
  handler is resolved.
\<close>

definition getSessionHandlerOfFound ::
  "Sdk \<Rightarrow> SessionManager \<Rightarrow> IJingleSession Member
     \<Rightarrow> JsError + BaseSessionHandler \<times> IJingleSession" where
  "getSessionHandlerOfFound sdk sm found =
     (case found of
        Own s \<Rightarrow>
          (case getSessionHandler sdk sm (forJingleSession s) of
             Inl e \<Rightarrow> Inl e
           | Inr handler \<Rightarrow> Inr (handler, s))
      | Inherited name \<Rightarrow>
          Inl (SdkError generic
                 ''getSessionHandler was called without any identifying information''
                 (GetSessionHandlerDetails (forFound found))))"

definition forSessionInfo :: "ISessionInfo \<Rightarrow> GetSessionHandlerParams" where
  "forSessionInfo si = \<lparr>gh_sessionInfo = Some si, gh_sessionType = None, gh_jingleSession = None\<rparr>"

text \<open>
  An awaited hook of a handler: the call is recorded, the hook may change the registry,
  and the caller's promise settles as the hook's does.
\<close>

definition awaitHandler ::
  "Sdk \<Rightarrow> Effect \<Rightarrow> SessionManager \<Rightarrow> unit Promise \<times> SessionManager \<times> Effect list" where
  "awaitHandler sdk e sm =
     (handlerCall sdk e, sm\<lparr>pendingSessions := handlerRegistry sdk e (pendingSessions sm)\<rparr>, [e])"

definition onPropose ::
  "Sdk \<Rightarrow> ISessionInfo \<Rightarrow> SessionManager \<Rightarrow> unit Promise \<times> SessionManager \<times> Effect list" where
  "onPropose sdk sessionInfo sm =
     (case getSessionHandler sdk sm (forSessionInfo sessionInfo) of
        Inl e \<Rightarrow> (Rejected e, sm, [])
      | Inr handler \<Rightarrow>
          if disabled handler then (Fulfilled (), sm, [])
          else
            (case getPendingSession sm (si_sessionId sessionInfo) of
               Some existingSession \<Rightarrow>
                 (Fulfilled (), sm,
                  [Log info ''onPendingSession'', Log info ''duplicate session invitation, ignoring''])
             | None \<Rightarrow>
                 (let pendingSession =
                        \<lparr>ps_id = si_sessionId sessionInfo,
                         ps_autoAnswer = si_autoAnswer sessionInfo,
                         ps_address = si_fromJid sessionInfo,
                         ps_conversationId = si_conversationId sessionInfo,
                         ps_sessionType = sessionType handler,
                         ps_originalRoomJid = si_originalRoomJid sessionInfo,
                         ps_fromUserId = si_fromUserId sessionInfo\<rparr>;
                      sm1 = sm\<lparr>pendingSessions :=
                                (pendingSessions sm)(ps_id pendingSession \<mapsto> pendingSession)\<rparr>;
                      (r, sm2, es) =
                        awaitHandler sdk (HandlePropose (sessionType handler) pendingSession) sm1
                  in (r, sm2, Log info ''onPendingSession'' # es))))"

text \<open>A sequence of proposal events, each handled to its end before the next.\<close>

fun onProposeAll :: "Sdk \<Rightarrow> ISessionInfo list \<Rightarrow> SessionManager \<Rightarrow> SessionManager" where
  "onProposeAll sdk [] sm = sm"
| "onProposeAll sdk (sessionInfo # rest) sm =
     onProposeAll sdk rest (fst (snd (onPropose sdk sessionInfo sm)))"


text \<open>\<open>!params.id\<close> holds of an absent id and of the empty string.\<close>

definition falsy :: "string option \<Rightarrow> bool" where
  "falsy v = (case v of None \<Rightarrow> True | Some s \<Rightarrow> s = [])"

definition endSession ::
  "Sdk \<Rightarrow> IEndSessionRequest \<Rightarrow> SessionManager \<Rightarrow> unit Promise \<times> SessionManager \<times> Effect list" where
  "endSession sdk params sm =
     (if falsy (e_id params) \<and> falsy (e_conversationId params) then
        (Rejected (SdkError session
           ''Unable to end session: must provide session id or conversationId.'' NoDetails), sm, [])
      else
        (case getSession sm params of
           Inl e \<Rightarrow> (Rejected e, sm, [])
         | Inr found \<Rightarrow>
             (case getSessionHandlerOfFound sdk sm found of
                Inl e \<Rightarrow> (Rejected e, sm, [])
              | Inr (sessionHandler, s) \<Rightarrow>
                  awaitHandler sdk (HandlerEndSession (sessionType sessionHandler) (js_id s)) sm)))"


subsection \<open>Output device of all sessions\<close>

text \<open>
  \<open>sessions.map(...)\<close> of \<open>updateOutputDeviceForAllSessions\<close>: a handler that cannot be
  resolved throws inside the map, after the calls for the sessions before it were issued.
  The result is the exception if there is one, the promises, and the calls issued.
\<close>

fun mapUpdateOutputDevice ::
  "Sdk \<Rightarrow> SessionManager \<Rightarrow> string \<Rightarrow> IJingleSession list
     \<Rightarrow> JsError option \<times> unit Promise list \<times> Effect list" where
  "mapUpdateOutputDevice sdk sm deviceId [] = (None, [], [])"
| "mapUpdateOutputDevice sdk sm deviceId (s # rest) =
     (case getSessionHandler sdk sm (forJingleSession s) of
        Inl e \<Rightarrow> (Some e, [], [])
      | Inr handler \<Rightarrow>
          (let call = HandlerUpdateOutputDevice (sessionType handler) (js_id s) deviceId;
               (err, promises, es) = mapUpdateOutputDevice sdk sm deviceId rest
           in (err, handlerCall sdk call # promises, call # es)))"

text \<open>
  \<open>await getValidDeviceId(...) || ''\<close> is the empty string when the helper resolves to
  \<open>undefined\<close> or to the empty string.
\<close>

definition updateOutputDeviceForAllSessions ::
  "Sdk \<Rightarrow> DeviceIdArg \<Rightarrow> SessionManager \<Rightarrow> unit Promise \<times> Effect list" where
  "updateOutputDeviceForAllSessions sdk outputDeviceId sm =
     (let validOutputDeviceId =
            (case getValidDeviceId sdk audiooutput outputDeviceId of None \<Rightarrow> [] | Some d \<Rightarrow> d)
      in if (case outputDeviceId of DevString s \<Rightarrow> validOutputDeviceId \<noteq> s | _ \<Rightarrow> False) then
           (Fulfilled (), [Log warn ''Output deviceId not found. Not updating output media''])
         else
           (let sessions =
                  filter (\<lambda>s. js_sessionType s \<noteq> Some acdScreenShare) (getAllActiveSessions sm);
                (err, promises, es) = mapUpdateOutputDevice sdk sm validOutputDeviceId sessions
            in ((case err of Some e \<Rightarrow> Rejected e | None \<Rightarrow> Promise_all promises),
                Log info ''Updating output deviceId for all active sessions'' # es)))"

subsection \<open>Device reconciliation\<close>

definition trackIdsToIgnore :: "IJingleSession \<Rightarrow> string list" where
  "trackIdsToIgnore s =
     (case js_screenShareStream s of Some tracks \<Rightarrow> map t_id tracks | None \<Rightarrow> [])"

text \<open>
  \<open>session.pc.getSenders().filter(sender => sender.track &&
    !trackIdsToIgnore.includes(sender.track.id)).map(s => s.track)\<close>
\<close>

definition outgoingTracks :: "IJingleSession \<Rightarrow> MediaStreamTrack list" where
  "outgoingTracks s =
     List.map_filter
       (\<lambda>sender. case sender of
           None \<Rightarrow> None
         | Some track \<Rightarrow> if t_id track \<in> set (trackIdsToIgnore s) then None else Some track)
       (js_senders s)"

definition deviceExists :: "EnumeratedDevices \<Rightarrow> MediaStreamTrack \<Rightarrow> bool" where
  "deviceExists devs track =
     (find (\<lambda>d. d_label d = t_label track \<and> kindSlice5 (d_kind d) = t_kind track)
        (if t_kind track = video then videoDevices devs else audioDevices devs) \<noteq> None)"

text \<open>
  The \<open>Map\<close> of updates, in insertion order: \<open>updates.set\<close> of a key that is present
  keeps its place, a new key goes last. An absent flag of \<open>{ video?, audio? }\<close> is
  \<open>False\<close>.
\<close>

record MediaToUpdate =
  mu_video :: bool
  mu_audio :: bool

definition flagTrack ::
  "string \<Rightarrow> TrackKind \<Rightarrow> (string \<times> MediaToUpdate) list \<Rightarrow> (string \<times> MediaToUpdate) list" where
  "flagTrack sessionId k updates =
     (let currVal =
            (case map_of updates sessionId of
               Some v \<Rightarrow> v
             | None \<Rightarrow> \<lparr>mu_video = False, mu_audio = False\<rparr>);
          newVal =
            (case k of video \<Rightarrow> currVal\<lparr>mu_video := True\<rparr> | audio \<Rightarrow> currVal\<lparr>mu_audio := True\<rparr>)
      in AList.update sessionId newVal updates)"

fun checkTracks ::
  "EnumeratedDevices \<Rightarrow> IJingleSession \<Rightarrow> MediaStreamTrack list
     \<Rightarrow> (string \<times> MediaToUpdate) list \<Rightarrow> (string \<times> MediaToUpdate) list \<times> Effect list" where
  "checkTracks devs s [] updates = (updates, [])"
| "checkTracks devs s (track # rest) updates =
     (if deviceExists devs track then
        (let (u, es) = checkTracks devs s rest updates
         in (u, Log debug ''sessions outgoing track still has available device'' # es))
      else
        (let (u, es) = checkTracks devs s rest (flagTrack (js_id s) (t_kind track) updates)
         in (u, Log info ''session lost media device and will attempt to switch devices'' # es)))"

definition outputDeviceMissing :: "Sdk \<Rightarrow> EnumeratedDevices \<Rightarrow> IJingleSession \<Rightarrow> bool" where
  "outputDeviceMissing sdk devs s =
     (hasOutputDeviceSupport sdk \<and>
      (case js_outputSinkId s of
         None \<Rightarrow> False
       | Some sinkId \<Rightarrow> find (\<lambda>d. d_deviceId d = sinkId) (outputDevices devs) = None))"

text \<open>The first loop: the sessions that need an update, and the global output flag.\<close>

fun findSessionsToUpdate ::
  "Sdk \<Rightarrow> EnumeratedDevices \<Rightarrow> IJingleSession list \<Rightarrow> (string \<times> MediaToUpdate) list \<Rightarrow> bool
     \<Rightarrow> (string \<times> MediaToUpdate) list \<times> bool \<times> Effect list" where
  "findSessionsToUpdate sdk devs [] updates flag = (updates, flag, [])"
| "findSessionsToUpdate sdk devs (s # rest) updates flag =
     (let (u1, es1) = checkTracks devs s (outgoingTracks s) updates;
          missing = outputDeviceMissing sdk devs s;
          (u2, f2, es2) = findSessionsToUpdate sdk devs rest u1 (flag \<or> missing)
      in (u2, f2,
          es1 @
          (if missing then [Log info ''session lost output device and will attempt to switch device'']
           else []) @
          es2))"

text \<open>
  \<open>senders.forEach\<close> of the audio branch, over the tracks of the senders that have one:
  stop the track, ask the handler to remove it, remove it from the outbound stream. The
  read of \<open>removeTrack\<close> on an absent \<open>_outboundStream\<close> throws.
\<close>

fun removeAudioSenders ::
  "Sdk \<Rightarrow> BaseSessionHandler \<Rightarrow> IJingleSession \<Rightarrow> MediaStreamTrack list
     \<Rightarrow> JsError option \<times> unit Promise list \<times> Effect list" where
  "removeAudioSenders sdk handler s [] = (None, [], [])"
| "removeAudioSenders sdk handler s (track # rest) =
     (let remove = HandlerRemoveMediaFromSession (sessionType handler) (js_id s) track
      in case js_outboundStream s of
           None \<Rightarrow>
             (Some (TypeError ''Cannot read property removeTrack of undefined''),
              [handlerCall sdk remove], [TrackStop track, remove])
         | Some stream \<Rightarrow>
             (let (err, promises, es) = removeAudioSenders sdk handler s rest
              in (err, handlerCall sdk remove # promises,
                  [TrackStop track, remove, OutboundStreamRemoveTrack (js_id s) track] @ es)))"

definition updateVideo ::
  "Sdk \<Rightarrow> EnumeratedDevices \<Rightarrow> BaseSessionHandler \<Rightarrow> IJingleSession \<Rightarrow> MediaToUpdate
     \<Rightarrow> DeviceIdArg option \<times> unit Promise list \<times> Effect list" where
  "updateVideo sdk devs handler jingleSession mediaToUpdate =
     (if mu_video mediaToUpdate then
        (if videoDevices devs \<noteq> [] then (Some (DevBool True), [], [])
         else
           (let mute = HandlerSetVideoMute (sessionType handler) (js_id jingleSession) True
            in (None, [handlerCall sdk mute],
                [Log warn ''no available video devices to switch to. setting video to mute for session'',
                 mute])))
      else (None, [], []))"

definition updateAudio ::
  "Sdk \<Rightarrow> EnumeratedDevices \<Rightarrow> BaseSessionHandler \<Rightarrow> IJingleSession \<Rightarrow> MediaToUpdate
     \<Rightarrow> JsError option \<times> DeviceIdArg option \<times> unit Promise list \<times> Effect list" where
  "updateAudio sdk devs handler jingleSession mediaToUpdate =
     (if mu_audio mediaToUpdate then
        (if audioDevices devs \<noteq> [] then (None, Some (DevBool True), [], [])
         else
           (let mute = HandlerSetAudioMute (sessionType handler) (js_id jingleSession) True;
                senders =
                  List.map_filter (\<lambda>sender. sender)
                    (getSendersByTrackType sdk (sessionType handler) jingleSession audio);
                (err, promises, es) = removeAudioSenders sdk handler jingleSession senders
            in (err, None, handlerCall sdk mute # promises,
                [Log warn ''no available audio devices to switch to. setting audio to mute for session'',
                 mute] @ es)))
      else (None, None, [], []))"

text \<open>One round of the second loop, for the entry \<open>[sessionId, mediaToUpdate]\<close>.\<close>

definition updateSession ::
  "Sdk \<Rightarrow> SessionManager \<Rightarrow> EnumeratedDevices \<Rightarrow> string \<times> MediaToUpdate
     \<Rightarrow> JsError option \<times> unit Promise list \<times> Effect list" where
  "updateSession sdk sm devs entry =
     (let sessionId = fst entry; mediaToUpdate = snd entry
      in case getSession sm \<lparr>e_id = Some sessionId, e_conversationId = None\<rparr> of
           Inl e \<Rightarrow> (Some e, [], [])
         | Inr found \<Rightarrow>
             (case getSessionHandlerOfFound sdk sm found of
                Inl e \<Rightarrow> (Some e, [], [])
              | Inr (handler, jingleSession) \<Rightarrow>
                  (let (videoDeviceId, ps1, es1) =
                         updateVideo sdk devs handler jingleSession mediaToUpdate;
                       (err, audioDeviceId, ps2, es2) =
                         updateAudio sdk devs handler jingleSession mediaToUpdate
                   in case err of
                        Some e \<Rightarrow> (Some e, ps1 @ ps2, es1 @ es2)
                      | None \<Rightarrow>
                          if videoDeviceId \<noteq> None \<or> audioDeviceId \<noteq> None then
                            (let update = SdkUpdateOutgoingMedia
                                   \<lparr>uo_sessionId = Some sessionId,
                                    uo_videoDeviceId = videoDeviceId,
                                    uo_audioDeviceId = audioDeviceId\<rparr>
                             in (None, ps1 @ ps2 @ [handlerCall sdk update], es1 @ es2 @ [update]))
                          else (None, ps1 @ ps2, es1 @ es2))))"

fun updateSessions ::
  "Sdk \<Rightarrow> SessionManager \<Rightarrow> EnumeratedDevices \<Rightarrow> (string \<times> MediaToUpdate) list
     \<Rightarrow> JsError option \<times> unit Promise list \<times> Effect list" where
  "updateSessions sdk sm devs [] = (None, [], [])"
| "updateSessions sdk sm devs (entry # rest) =
     (case updateSession sdk sm devs entry of
        (Some e, ps, es) \<Rightarrow> (Some e, ps, es)
      | (None, ps, es) \<Rightarrow>
          (let (err, ps', es') = updateSessions sdk sm devs rest
           in (err, ps @ ps', es @ es')))"

definition validateOutgoingMediaTracks :: "Sdk \<Rightarrow> SessionManager \<Rightarrow> unit Promise \<times> Effect list" where
  "validateOutgoingMediaTracks sdk sm =
     (let sessions = getAllActiveSessions sm;
          devs = getEnumeratedDevices sdk;
          (updates, updateOutputDevice, es0) = findSessionsToUpdate sdk devs sessions [] False
      in if updates = [] \<and> \<not> updateOutputDevice then
           (Fulfilled (),
            es0 @ [Log debug
              ''no active sessions have outgoing tracks that need to have the device updated''])
         else
           (case updateSessions sdk sm devs updates of
              (Some e, promises, es1) \<Rightarrow> (Rejected e, es0 @ es1)
            | (None, promises, es1) \<Rightarrow>
                if updateOutputDevice then
                  (let (p, es2) = updateOutputDeviceForAllSessions sdk (DevBool True) sm
                   in (Promise_all (promises @ [p]), es0 @ es1 @ es2))
                else (Promise_all promises, es0 @ es1)))"

section \<open>The softphone session handler (src/sessions/softphone-session-handler.ts)\<close>

definition foundParticipant ::
  "IJingleSession \<Rightarrow> Effect list \<Rightarrow> IConversationParticipant
     \<Rightarrow> IConversationParticipant Promise \<times> IJingleSession \<times> Effect list" where
  "foundParticipant sess es participant =
     (Fulfilled participant, sess\<lparr>js_pcParticipant := Some participant\<rparr>, es)"

definition getParticipantForSession ::
  "Sdk \<Rightarrow> IJingleSession \<Rightarrow> IConversationParticipant Promise \<times> IJingleSession \<times> Effect list" where
  "getParticipantForSession sdk sess =
     (case js_pcParticipant sess of
        Some cached \<Rightarrow> (Fulfilled cached, sess, [])
      | None \<Rightarrow>
          (let es = [RequestApiGet (js_conversationId sess)]
           in case requestApiGet sdk (js_conversationId sess) of
                Rejected e \<Rightarrow> (Rejected e, sess, es)
              | Pending \<Rightarrow> (Pending, sess, es)
              | Fulfilled participants \<Rightarrow>
                  (let participantsForUser =
                         filter (\<lambda>p. p_userId p = Some (personDetailsId sdk)) participants
                   in if length participantsForUser = 1 then
                        foundParticipant sess es (participantsForUser ! 0)
                      else if length participantsForUser > 1 then
                        (let connected =
                               filter (\<lambda>p. p_state p = ''connected'') participantsForUser
                         in if length connected \<noteq> 1 then
                              (Rejected (SdkError generic
                                 ''Failed to find a connected participant for user on conversation''
                                 (ConnectedParticipantDetails (js_conversationId sess)
                                    (js_id sess) softphone (personDetailsId sdk))),
                               sess, es)
                            else foundParticipant sess es (connected ! 0))
                      else
                        (Rejected (SdkError generic ''Failed to find a participant for session''
                           (ParticipantDetails (js_conversationId sess) (js_id sess)
                              softphone)),
                         sess, es))))"




section \<open>Properties\<close>

text \<open>
  Every pending entry is stored under its own id, and the hooks of the handlers keep it
  so (they reach the registry through the session manager).
\<close>

definition keyedById :: "(string \<rightharpoonup> IPendingSession) \<Rightarrow> bool" where
  "keyedById reg = (\<forall>k p. reg k = Some p \<longrightarrow> ps_id p = k)"

definition hooksKeepKeys :: "Sdk \<Rightarrow> bool" where
  "hooksKeepKeys sdk = (\<forall>e reg. keyedById reg \<longrightarrow> keyedById (handlerRegistry sdk e reg))"

definition onePendingEntryPerId :: "(string \<rightharpoonup> IPendingSession) \<Rightarrow> bool" where
  "onePendingEntryPerId reg =
     (\<forall>k1 k2 p1 p2. reg k1 = Some p1 \<and> reg k2 = Some p2 \<and> ps_id p1 = ps_id p2 \<longrightarrow> k1 = k2)"

text \<open>
  The exception that the second loop of the reconciliation pass throws, if any: a
  flagged session that is not found under its id, a handler that cannot be resolved, or
  the read of \<open>removeTrack\<close> on an absent outbound stream. A session is stored under
  its own id when \<open>jingle.sessions[session.id]\<close> is that session.
\<close>

definition updateLoopError :: "Sdk \<Rightarrow> SessionManager \<Rightarrow> JsError option" where
  "updateLoopError sdk sm =
     fst (updateSessions sdk sm (getEnumeratedDevices sdk)
            (fst (findSessionsToUpdate sdk (getEnumeratedDevices sdk)
                    (getAllActiveSessions sm) [] False)))"

definition storedUnderOwnId :: "SessionManager \<Rightarrow> IJingleSession \<Rightarrow> bool" where
  "storedUnderOwnId sm s = (js_id s \<noteq> [] \<and> map_of (jingleSessions sm) (js_id s) = Some s)"

text \<open>
  The rounds of the second loop up to and including the round of one session (the loop
  goes through the update plan in order), and the exception thrown in those rounds, if
  any. What the loop does after the round of the session has no part in it.
\<close>

fun roundsThrough ::
  "string \<Rightarrow> (string \<times> MediaToUpdate) list \<Rightarrow> (string \<times> MediaToUpdate) list" where
  "roundsThrough sessionId [] = []"
| "roundsThrough sessionId (entry # rest) =
     (if fst entry = sessionId then [entry] else entry # roundsThrough sessionId rest)"

definition updateLoopErrorThrough :: "Sdk \<Rightarrow> SessionManager \<Rightarrow> string \<Rightarrow> JsError option" where
  "updateLoopErrorThrough sdk sm sessionId =
     fst (updateSessions sdk sm (getEnumeratedDevices sdk)
            (roundsThrough sessionId
               (fst (findSessionsToUpdate sdk (getEnumeratedDevices sdk)
                       (getAllActiveSessions sm) [] False))))"

text \<open>
  \<open>getSendersByTrackType\<close> (base handler, not among the sources) reports every sender
  of the session's peer connection whose track is of the kind asked for.
\<close>

definition reportsSendersByKind :: "Sdk \<Rightarrow> bool" where
  "reportsSendersByKind sdk =
     (\<forall>t s k track. Some track \<in> set (js_senders s) \<and> t_kind track = k \<longrightarrow>
        Some track \<in> set (getSendersByTrackType sdk t s k))"

text \<open>
  A transport on which that loop cannot throw: \<open>jingle.sessions\<close> holds every session
  once, under its own non-empty id; the address of every live session belongs to one of
  the handlers; a live session has an outbound stream.
\<close>

definition handlerResolves :: "Sdk \<Rightarrow> SessionManager \<Rightarrow> IJingleSession \<Rightarrow> bool" where
  "handlerResolves sdk sm s =
     (case getSessionHandler sdk sm (forJingleSession s) of Inl err \<Rightarrow> False | Inr handler \<Rightarrow> True)"

definition transportOk :: "Sdk \<Rightarrow> SessionManager \<Rightarrow> bool" where
  "transportOk sdk sm =
     (distinct (map fst (jingleSessions sm)) \<and>
      list_all (\<lambda>(k, s). k = js_id s \<and> k \<noteq> [] \<and> handlerResolves sdk sm s \<and> js_outboundStream s \<noteq> None)
        (jingleSessions sm))"

text \<open>
  \<open>getValidDeviceId\<close> (media-utils, not among the sources) only resolves to the id of
  a device of the inventory.
\<close>

definition resolvesToInventory :: "Sdk \<Rightarrow> bool" where
  "resolvesToInventory sdk =
     (\<forall>a d. getValidDeviceId sdk audiooutput a = Some d \<longrightarrow>
        d \<in> d_deviceId ` set (outputDevices (getEnumeratedDevices sdk)))"

text \<open>
  The sessions an output-device update goes to, and the call it makes for one of them:
  \<open>updateOutputDevice\<close> of the session's handler, with the session and the device id.
\<close>

definition outputTargets :: "SessionManager \<Rightarrow> IJingleSession list" where
  "outputTargets sm =
     filter (\<lambda>s. js_sessionType s \<noteq> Some acdScreenShare) (getAllActiveSessions sm)"

definition isOutputDeviceCallFor ::
  "Sdk \<Rightarrow> SessionManager \<Rightarrow> string \<Rightarrow> IJingleSession \<Rightarrow> Effect \<Rightarrow> bool" where
  "isOutputDeviceCallFor sdk sm deviceId s e =
     (case getSessionHandler sdk sm (forJingleSession s) of
        Inl err \<Rightarrow> False
      | Inr handler \<Rightarrow> e = HandlerUpdateOutputDevice (sessionType handler) (js_id s) deviceId)"

text \<open>
  Kinds of calls: \<open>flagged k m\<close> reads the flag of kind \<open>k\<close> in an entry of the update
  plan; an audio switch is an \<open>updateOutgoingMedia\<close> that carries an audio device id; the
  three calls that stop and remove one track; the tracks of the senders the handler's
  \<open>getSendersByTrackType(session, 'audio')\<close> returns.
\<close>

fun flagged :: "TrackKind \<Rightarrow> MediaToUpdate \<Rightarrow> bool" where
  "flagged video m = mu_video m"
| "flagged audio m = mu_audio m"

fun isAudioSwitch :: "Effect \<Rightarrow> bool" where
  "isAudioSwitch (SdkUpdateOutgoingMedia opts) = (uo_audioDeviceId opts \<noteq> None)"
| "isAudioSwitch e = False"

fun isVideoMute :: "Effect \<Rightarrow> bool" where
  "isVideoMute (HandlerSetVideoMute t sid m) = True"
| "isVideoMute e = False"

definition removalCalls :: "BaseSessionHandler \<Rightarrow> IJingleSession \<Rightarrow> MediaStreamTrack \<Rightarrow> Effect list" where
  "removalCalls handler s track =
     [TrackStop track, HandlerRemoveMediaFromSession (sessionType handler) (js_id s) track,
      OutboundStreamRemoveTrack (js_id s) track]"

definition audioSenderTracks :: "Sdk \<Rightarrow> BaseSessionHandler \<Rightarrow> IJingleSession \<Rightarrow> MediaStreamTrack list" where
  "audioSenderTracks sdk handler s =
     List.map_filter (\<lambda>sender. sender) (getSendersByTrackType sdk (sessionType handler) s audio)"

section \<open>Example transport, collaborators and events\<close>

text \<open>
  A softphone call and a video meeting, both live; three handlers, the screen-share one
  disabled; collaborators that succeed, and an empty device inventory.
\<close>

definition exMic :: MediaStreamTrack where
  "exMic = \<lparr>t_id = ''t-mic'', t_kind = audio, t_label = ''Headset Mic''\<rparr>"

definition exCam :: MediaStreamTrack where
  "exCam = \<lparr>t_id = ''t-cam'', t_kind = video, t_label = ''Front Camera''\<rparr>"

definition exCall :: IJingleSession where
  "exCall = \<lparr>js_id = ''s1'', js_peerID = ''softphone-peer'', js_conversationId = ''c1'',
     js_sessionType = Some softphone, js_active = True, js_senders = [Some exMic],
     js_pcParticipant = None, js_outboundStream = Some [exMic],
     js_screenShareStream = None, js_outputSinkId = Some ''speaker-1''\<rparr>"

definition exMeeting :: IJingleSession where
  "exMeeting = \<lparr>js_id = ''s2'', js_peerID = ''video-peer'', js_conversationId = ''c2'',
     js_sessionType = Some collaborateVideo, js_active = True,
     js_senders = [Some exMic, None, Some exCam],
     js_pcParticipant = None, js_outboundStream = Some [exMic, exCam],
     js_screenShareStream = None, js_outputSinkId = None\<rparr>"

definition exSdk :: Sdk where
  "exSdk = \<lparr>
     shouldHandleSessionByJid =
       (\<lambda>t jid. case t of softphone \<Rightarrow> jid = ''softphone-peer''
                 | collaborateVideo \<Rightarrow> jid = ''video-peer''
                 | acdScreenShare \<Rightarrow> jid = ''screen-peer''),
     handlerCall = (\<lambda>e. Fulfilled ()),
     handlerRegistry = (\<lambda>e reg. reg),
     getValidDeviceId = (\<lambda>k a. None),
     getEnumeratedDevices = \<lparr>videoDevices = [], audioDevices = [], outputDevices = []\<rparr>,
     hasOutputDeviceSupport = True,
     getSendersByTrackType =
       (\<lambda>t s k. filter (\<lambda>sender. case sender of None \<Rightarrow> False | Some tr \<Rightarrow> t_kind tr = k)
                  (js_senders s)),
     requestApiGet = (\<lambda>c. Fulfilled []),
     requestApiPatch = (\<lambda>c p v. Fulfilled ()),
     terminated = (\<lambda>sid. True),
     superEndSession = (\<lambda>sid. Fulfilled ()),
     personDetailsId = ''user-1''\<rparr>"

definition exManager :: SessionManager where
  "exManager = \<lparr>
     sessionHandlers =
       [\<lparr>sessionType = softphone, disabled = False\<rparr>,
        \<lparr>sessionType = collaborateVideo, disabled = False\<rparr>,
        \<lparr>sessionType = acdScreenShare, disabled = True\<rparr>],
     pendingSessions = Map.empty,
     jingleSessions = [(''s1'', exCall), (''s2'', exMeeting)]\<rparr>"

definition exProposal :: ISessionInfo where
  "exProposal = \<lparr>si_sessionId = ''p1'', si_autoAnswer = False, si_fromJid = ''softphone-peer'',
     si_conversationId = ''c9'', si_originalRoomJid = None, si_fromUserId = None\<rparr>"

text \<open>
  The same transport with one more live session, listed first, whose peer address
  belongs to no handler.
\<close>

definition exStranger :: IJingleSession where
  "exStranger = \<lparr>js_id = ''s0'', js_peerID = ''stranger-peer'', js_conversationId = ''c0'',
     js_sessionType = None, js_active = True, js_senders = [Some exMic, Some exCam],
     js_pcParticipant = None, js_outboundStream = Some [exMic, exCam],
     js_screenShareStream = None, js_outputSinkId = None\<rparr>"

definition exStrangerManager :: SessionManager where
  "exStrangerManager = exManager\<lparr>jingleSessions :=
     [(''s0'', exStranger), (''s1'', exCall), (''s2'', exMeeting)]\<rparr>"

text \<open>
  The same transport with the stranger listed last instead.
\<close>

definition exStrangerLastManager :: SessionManager where
  "exStrangerLastManager = exManager\<lparr>jingleSessions :=
     [(''s1'', exCall), (''s2'', exMeeting), (''s0'', exStranger)]\<rparr>"

text \<open>
  Participants of the call's conversation, and REST collaborators that refuse the patch
  and the terminate, or cannot be reached.
\<close>

definition exMe :: IConversationParticipant where
  "exMe = \<lparr>p_id = ''part-1'', p_address = ''sip:me'', p_purpose = ''agent'',
     p_state = ''connected'', p_direction = ''inbound'', p_userId = Some ''user-1'',
     p_muted = False, p_confined = False\<rparr>"

definition exMeEarlier :: IConversationParticipant where
  "exMeEarlier = \<lparr>p_id = ''part-0'', p_address = ''sip:me'', p_purpose = ''agent'',
     p_state = ''disconnected'', p_direction = ''inbound'', p_userId = Some ''user-1'',
     p_muted = False, p_confined = False\<rparr>"

definition exCustomer :: IConversationParticipant where
  "exCustomer = \<lparr>p_id = ''part-2'', p_address = ''tel:+1555'', p_purpose = ''customer'',
     p_state = ''connected'', p_direction = ''inbound'', p_userId = None,
     p_muted = False, p_confined = False\<rparr>"



text \<open>
  Device inventories: one where the meeting's camera is gone and another camera is
  left, one where every device in use is present.
\<close>

definition exUsbCamera :: MediaDeviceInfo where
  "exUsbCamera = \<lparr>d_deviceId = ''cam-2'', d_kind = videoinput, d_label = ''USB Camera''\<rparr>"

definition exFrontCamera :: MediaDeviceInfo where
  "exFrontCamera = \<lparr>d_deviceId = ''cam-1'', d_kind = videoinput, d_label = ''Front Camera''\<rparr>"

definition exHeadset :: MediaDeviceInfo where
  "exHeadset = \<lparr>d_deviceId = ''mic-1'', d_kind = audioinput, d_label = ''Headset Mic''\<rparr>"

definition exSpeaker :: MediaDeviceInfo where
  "exSpeaker = \<lparr>d_deviceId = ''speaker-1'', d_kind = audiooutput, d_label = ''Speakers''\<rparr>"

definition exCameraLostSdk :: Sdk where
  "exCameraLostSdk = exSdk\<lparr>getEnumeratedDevices :=
     \<lparr>videoDevices = [exUsbCamera], audioDevices = [exHeadset], outputDevices = [exSpeaker]\<rparr>\<rparr>"

definition exAllPresentSdk :: Sdk where
  "exAllPresentSdk = exSdk\<lparr>
     getValidDeviceId := (\<lambda>k a. if k = audiooutput then Some ''speaker-1'' else None),
     getEnumeratedDevices :=
       \<lparr>videoDevices = [exFrontCamera], audioDevices = [exHeadset], outputDevices = [exSpeaker]\<rparr>\<rparr>"

text \<open>
  The log lines of the first loop of the pass over the transport with the stranger,
  with the empty inventory and with the lost camera.
\<close>

definition exStrangerPassLogs :: "Effect list" where
  "exStrangerPassLogs =
     [Log info ''session lost media device and will attempt to switch devices'',
      Log info ''session lost media device and will attempt to switch devices'',
      Log info ''session lost media device and will attempt to switch devices'',
      Log info ''session lost output device and will attempt to switch device'',
      Log info ''session lost media device and will attempt to switch devices'',
      Log info ''session lost media device and will attempt to switch devices'']"

definition exStrangerCameraPassLogs :: "Effect list" where
  "exStrangerCameraPassLogs =
     [Log debug ''sessions outgoing track still has available device'',
      Log info ''session lost media device and will attempt to switch devices'',
      Log debug ''sessions outgoing track still has available device'',
      Log debug ''sessions outgoing track still has available device'',
      Log info ''session lost media device and will attempt to switch devices'']"

section \<open>Proposals\<close>

lemma objectMember_own: "own key = Some v \<Longrightarrow> objectMember own key = Some (Own v)"
  by (simp add: objectMember_def)

lemma objectMember_inherited:
  "own key = None \<Longrightarrow> key \<in> set objectPrototypeNames \<Longrightarrow>
     objectMember own key = Some (Inherited key)"
  by (simp add: objectMember_def)

lemma objectMember_absent:
  "own key = None \<Longrightarrow> key \<notin> set objectPrototypeNames \<Longrightarrow> objectMember own key = None"
  by (simp add: objectMember_def)

lemma onPropose_existing:
  assumes "pendingSessions sm (si_sessionId sessionInfo) \<noteq> None"
  shows "fst (snd (onPropose sdk sessionInfo sm)) = sm \<and>
         list_all isLog (snd (snd (onPropose sdk sessionInfo sm))) \<and>
         filter isHandlePropose (snd (snd (onPropose sdk sessionInfo sm))) = []"
  using assms
  by (auto simp add: onPropose_def getPendingSession_def objectMember_def split: sum.split)

lemma onPropose_keyed:
  assumes hook: "hooksKeepKeys sdk"
    and reg: "keyedById (pendingSessions sm)"
  shows "keyedById (pendingSessions (fst (snd (onPropose sdk sessionInfo sm))))"
proof (cases "getSessionHandler sdk sm (forSessionInfo sessionInfo)")
  case (Inl e)
  then show ?thesis using reg by (simp add: onPropose_def)
next
  case (Inr handler)
  show ?thesis
  proof (cases "disabled handler \<or> getPendingSession sm (si_sessionId sessionInfo) \<noteq> None")
    case True
    then show ?thesis using reg Inr
      by (auto simp: onPropose_def)
  next
    case False
    define ps where "ps = \<lparr>ps_id = si_sessionId sessionInfo,
                         ps_autoAnswer = si_autoAnswer sessionInfo,
                         ps_address = si_fromJid sessionInfo,
                         ps_conversationId = si_conversationId sessionInfo,
                         ps_sessionType = sessionType handler,
                         ps_originalRoomJid = si_originalRoomJid sessionInfo,
                         ps_fromUserId = si_fromUserId sessionInfo\<rparr>"
    have id: "ps_id ps = si_sessionId sessionInfo" by (simp add: ps_def)
    have up: "keyedById ((pendingSessions sm)(si_sessionId sessionInfo \<mapsto> ps))"
      using reg id by (simp add: keyedById_def)
    have "pendingSessions (fst (snd (onPropose sdk sessionInfo sm))) =
          handlerRegistry sdk (HandlePropose (sessionType handler) ps)
            ((pendingSessions sm)(si_sessionId sessionInfo \<mapsto> ps))"
      using False Inr
      by (simp add: onPropose_def awaitHandler_def Let_def ps_def)
    then show ?thesis using hook up by (simp add: hooksKeepKeys_def)
  qed
qed

lemma onProposeAll_keyed:
  assumes "hooksKeepKeys sdk" and "keyedById (pendingSessions sm)"
  shows "keyedById (pendingSessions (onProposeAll sdk proposals sm))"
  using assms(2)
proof (induction proposals arbitrary: sm)
  case Nil
  then show ?case by simp
next
  case (Cons a proposals)
  then show ?case using onPropose_keyed[OF assms(1)] by simp
qed

lemma keyed_onePerId: "keyedById reg \<Longrightarrow> onePendingEntryPerId reg"
  by (auto simp: keyedById_def onePendingEntryPerId_def)

text \<open>
  C1. A proposal whose session id already has a pending entry leaves the session manager
  as it was: the entry is not replaced, none is added, and the only calls made are log
  lines, so the handler's propose hook is not invoked. With hooks that keep the registry
  keyed by id, after any sequence of proposals no two entries carry the same id.
\<close>

theorem onPropose_duplicate_is_ignored:
  "(pendingSessions sm (si_sessionId sessionInfo) \<noteq> None \<longrightarrow>
      fst (snd (onPropose sdk sessionInfo sm)) = sm \<and>
      list_all isLog (snd (snd (onPropose sdk sessionInfo sm))) \<and>
      filter isHandlePropose (snd (snd (onPropose sdk sessionInfo sm))) = []) \<and>
   (hooksKeepKeys sdk \<and> keyedById (pendingSessions sm) \<longrightarrow>
      onePendingEntryPerId (pendingSessions (onProposeAll sdk proposals sm)))"
  using onPropose_existing onProposeAll_keyed keyed_onePerId by blast

lemma exProposal_once:
  "onPropose exSdk exProposal exManager = (Fulfilled (), 
     exManager\<lparr>pendingSessions := [''p1'' \<mapsto> \<lparr>ps_id = ''p1'', ps_autoAnswer = False,
        ps_address = ''softphone-peer'', ps_conversationId = ''c9'', ps_sessionType = softphone,
        ps_originalRoomJid = None, ps_fromUserId = None\<rparr>]\<rparr>,
     [Log info ''onPendingSession'', HandlePropose softphone \<lparr>ps_id = ''p1'', ps_autoAnswer = False,
        ps_address = ''softphone-peer'', ps_conversationId = ''c9'', ps_sessionType = softphone,
        ps_originalRoomJid = None, ps_fromUserId = None\<rparr>])"
  by (simp add: onPropose_def getSessionHandler_def forSessionInfo_def fromJidOf_def
      getPendingSession_def objectMember_def objectPrototypeNames_def awaitHandler_def
      exSdk_def exManager_def exProposal_def Let_def)

text \<open>
  The same proposal twice: the second call changes nothing and only logs.
\<close>

theorem onPropose_duplicate_is_ignored_witness:
  "pendingSessions (fst (snd (onPropose exSdk exProposal exManager))) (si_sessionId exProposal) \<noteq> None \<and>
   fst (snd (onPropose exSdk exProposal (fst (snd (onPropose exSdk exProposal exManager))))) =
     fst (snd (onPropose exSdk exProposal exManager)) \<and>
   snd (snd (onPropose exSdk exProposal (fst (snd (onPropose exSdk exProposal exManager))))) =
     [Log info ''onPendingSession'', Log info ''duplicate session invitation, ignoring''] \<and>
   hooksKeepKeys exSdk \<and> keyedById (pendingSessions exManager) \<and>
   onePendingEntryPerId (pendingSessions (onProposeAll exSdk [exProposal, exProposal] exManager))"
proof -
  have h: "hooksKeepKeys exSdk" by (simp add: hooksKeepKeys_def exSdk_def)
  have k: "keyedById (pendingSessions exManager)" by (simp add: keyedById_def exManager_def)
  have d: "pendingSessions (fst (snd (onPropose exSdk exProposal exManager))) (si_sessionId exProposal) \<noteq> None"
    by (simp add: exProposal_once) (simp add: exProposal_def)
  have e: "snd (snd (onPropose exSdk exProposal (fst (snd (onPropose exSdk exProposal exManager))))) =
     [Log info ''onPendingSession'', Log info ''duplicate session invitation, ignoring'']"
    by (simp add: exProposal_once)
      (simp add: onPropose_def getSessionHandler_def forSessionInfo_def fromJidOf_def
      getPendingSession_def objectMember_def awaitHandler_def exSdk_def exManager_def
      exProposal_def Let_def)
  show ?thesis
    using h k d e
      onPropose_duplicate_is_ignored [of "fst (snd (onPropose exSdk exProposal exManager))"
        exProposal exSdk "[exProposal, exProposal]"]
      onPropose_duplicate_is_ignored [of exManager exProposal exSdk "[exProposal, exProposal]"]
    by blast
qed

section \<open>Accepting and ending a session\<close>

text \<open>
  C2. An end-session request with neither a session id nor a conversation id is refused
  before any lookup, whatever the transport holds; the error is of kind \<open>session\<close>, not
  of kind \<open>invalid_options\<close> as the same omission is in \<open>acceptSession\<close>.
\<close>

theorem endSession_without_id_is_session_error:
  "endSession sdk \<lparr>e_id = None, e_conversationId = None\<rparr> sm =
     (Rejected (SdkError session
        ''Unable to end session: must provide session id or conversationId.'' NoDetails), sm, []) \<and>
   errorType (SdkError session
        ''Unable to end session: must provide session id or conversationId.'' NoDetails)
     \<noteq> Some invalid_options"
  by (simp add: endSession_def falsy_def)

lemma getSessionHandler_inherited:
  "getSessionHandler sdk sm (forFound (Inherited name)) =
     Inl (SdkError generic ''getSessionHandler was called without any identifying information''
            (GetSessionHandlerDetails (forFound (Inherited name))))"
  by (simp add: getSessionHandler_def forFound_def fromJidOf_def)

lemma getSessionHandlerOfFound_lookup:
  "(case getSessionHandlerOfFound sdk sm found of
      Inl e \<Rightarrow> Inl e
    | Inr (handler, s) \<Rightarrow> Inr handler) = getSessionHandler sdk sm (forFound found)"
  by (cases found)
     (simp_all add: getSessionHandlerOfFound_def getSessionHandler_inherited forJingleSession_def
        split: sum.split)




section \<open>The softphone handler: participant resolution and ending a call\<close>


lemma getParticipant_cached:
  "getParticipantForSession sdk sess = (Fulfilled p, s1, es) \<Longrightarrow>
     js_pcParticipant s1 = Some p \<and> getParticipantForSession sdk s1 = (Fulfilled p, s1, [])"
  by (auto simp: getParticipantForSession_def foundParticipant_def Let_def
      split: option.splits Promise.splits if_splits)

text \<open>
  C9. For a session with no cached participant and a fetched participant list: the list
  is filtered to the local user; a single match is taken as it is; with more than one
  match the records in state "connected" are kept, and unless exactly one is left the
  result is an error of kind \<open>generic\<close> that leaves the session without a participant. A
  participant that was resolved is stored on the session, and the next call returns it
  without a request.
\<close>

theorem getParticipantForSession_strict:
  assumes "js_pcParticipant sess = None"
    and "requestApiGet sdk (js_conversationId sess) = Fulfilled participants"
    and "mine = filter (\<lambda>p. p_userId p = Some (personDetailsId sdk)) participants"
    and "connected = filter (\<lambda>p. p_state p = ''connected'') mine"
  shows "(mine = [p] \<longrightarrow>
            getParticipantForSession sdk sess =
              (Fulfilled p, sess\<lparr>js_pcParticipant := Some p\<rparr>, [RequestApiGet (js_conversationId sess)])) \<and>
         (length mine > 1 \<and> connected = [p] \<longrightarrow>
            getParticipantForSession sdk sess =
              (Fulfilled p, sess\<lparr>js_pcParticipant := Some p\<rparr>, [RequestApiGet (js_conversationId sess)])) \<and>
         (length mine > 1 \<and> length connected \<noteq> 1 \<longrightarrow>
            getParticipantForSession sdk sess =
              (Rejected (SdkError generic
                 ''Failed to find a connected participant for user on conversation''
                 (ConnectedParticipantDetails (js_conversationId sess) (js_id sess) softphone
                    (personDetailsId sdk))),
               sess, [RequestApiGet (js_conversationId sess)])) \<and>
         (getParticipantForSession sdk sess = (Fulfilled q, s1, es) \<longrightarrow>
            js_pcParticipant s1 = Some q \<and> getParticipantForSession sdk s1 = (Fulfilled q, s1, []))"
proof -
  have a: "mine = [p] \<Longrightarrow> getParticipantForSession sdk sess =
              (Fulfilled p, sess\<lparr>js_pcParticipant := Some p\<rparr>, [RequestApiGet (js_conversationId sess)])"
    using assms(1,2,3) by (simp add: getParticipantForSession_def foundParticipant_def Let_def)
  have b: "length mine > 1 \<Longrightarrow> connected = [p] \<Longrightarrow> getParticipantForSession sdk sess =
              (Fulfilled p, sess\<lparr>js_pcParticipant := Some p\<rparr>, [RequestApiGet (js_conversationId sess)])"
    using assms by (simp add: getParticipantForSession_def foundParticipant_def Let_def)
  have c: "length mine > 1 \<Longrightarrow> length connected \<noteq> 1 \<Longrightarrow> getParticipantForSession sdk sess =
              (Rejected (SdkError generic
                 ''Failed to find a connected participant for user on conversation''
                 (ConnectedParticipantDetails (js_conversationId sess) (js_id sess) softphone
                    (personDetailsId sdk))),
               sess, [RequestApiGet (js_conversationId sess)])"
    using assms by (simp add: getParticipantForSession_def foundParticipant_def Let_def)
  show ?thesis using a b c getParticipant_cached by blast
qed

text \<open>
  Two records of the local user, one of them connected: that one is taken and cached.
  Two connected records of the local user: the error.
\<close>

theorem getParticipantForSession_strict_witness:
  "js_pcParticipant exCall = None \<and>
   filter (\<lambda>p. p_userId p = Some ''user-1'') [exMeEarlier, exCustomer, exMe] = [exMeEarlier, exMe] \<and>
   filter (\<lambda>p. p_state p = ''connected'') [exMeEarlier, exMe] = [exMe] \<and>
   getParticipantForSession (exSdk\<lparr>requestApiGet := \<lambda>c. Fulfilled [exMeEarlier, exCustomer, exMe]\<rparr>) exCall =
     (Fulfilled exMe, exCall\<lparr>js_pcParticipant := Some exMe\<rparr>, [RequestApiGet ''c1'']) \<and>
   getParticipantForSession (exSdk\<lparr>requestApiGet := \<lambda>c. Fulfilled [exMeEarlier, exCustomer, exMe]\<rparr>)
       (exCall\<lparr>js_pcParticipant := Some exMe\<rparr>) =
     (Fulfilled exMe, exCall\<lparr>js_pcParticipant := Some exMe\<rparr>, []) \<and>
   getParticipantForSession (exSdk\<lparr>requestApiGet := \<lambda>c. Fulfilled [exMe, exCustomer, exMe]\<rparr>) exCall =
     (Rejected (SdkError generic
                 ''Failed to find a connected participant for user on conversation''
                 (ConnectedParticipantDetails ''c1'' ''s1'' softphone ''user-1'')),
      exCall, [RequestApiGet ''c1''])"
proof -
  let ?sdk = "exSdk\<lparr>requestApiGet := \<lambda>c. Fulfilled [exMeEarlier, exCustomer, exMe]\<rparr>"
  let ?sdk2 = "exSdk\<lparr>requestApiGet := \<lambda>c. Fulfilled [exMe, exCustomer, exMe]\<rparr>"
  have n: "js_pcParticipant exCall = None" by (simp add: exCall_def)
  have f: "filter (\<lambda>p. p_userId p = Some ''user-1'') [exMeEarlier, exCustomer, exMe] = [exMeEarlier, exMe]"
    by (simp add: exMe_def exMeEarlier_def exCustomer_def)
  have f2: "filter (\<lambda>p. p_userId p = Some ''user-1'') [exMe, exCustomer, exMe] = [exMe, exMe]"
    by (simp add: exMe_def exMeEarlier_def exCustomer_def)
  have g: "filter (\<lambda>p. p_state p = ''connected'') [exMeEarlier, exMe] = [exMe]"
    by (simp add: exMe_def exMeEarlier_def)
  have g2: "filter (\<lambda>p. p_state p = ''connected'') [exMe, exMe] = [exMe, exMe]"
    by (simp add: exMe_def)
  have u: "personDetailsId ?sdk = ''user-1''" "personDetailsId ?sdk2 = ''user-1''" by (simp_all add: exSdk_def)
  have r: "requestApiGet ?sdk (js_conversationId exCall) = Fulfilled [exMeEarlier, exCustomer, exMe]"
    "requestApiGet ?sdk2 (js_conversationId exCall) = Fulfilled [exMe, exCustomer, exMe]"
    by simp_all
  note t1 = getParticipantForSession_strict [OF n r(1), of "[exMeEarlier, exMe]" "[exMe]" exMe exMe
      "exCall\<lparr>js_pcParticipant := Some exMe\<rparr>" "[RequestApiGet ''c1'']"]
  note t2 = getParticipantForSession_strict [OF n r(2), of "[exMe, exMe]" "[exMe, exMe]" exMe exMe exCall "[]"]
  have i: "js_conversationId exCall = ''c1''" "js_id exCall = ''s1''" by (simp_all add: exCall_def)
  show ?thesis
    using t1 t2 n f f2 g g2 u i by simp
qed











section \<open>Output device of all sessions\<close>

lemma updateOutputDevice_effects:
  "snd (updateOutputDeviceForAllSessions sdk a sm) =
     (let dev = (case getValidDeviceId sdk audiooutput a of None \<Rightarrow> [] | Some d \<Rightarrow> d)
      in if (case a of DevString s \<Rightarrow> dev \<noteq> s | _ \<Rightarrow> False) then
           [Log warn ''Output deviceId not found. Not updating output media'']
         else
           Log info ''Updating output deviceId for all active sessions'' #
           snd (snd (mapUpdateOutputDevice sdk sm dev
                  (filter (\<lambda>s. js_sessionType s \<noteq> Some acdScreenShare) (getAllActiveSessions sm)))))"
  by (simp add: updateOutputDeviceForAllSessions_def Let_def split: prod.split)

lemma mapUpdateOutputDevice_filter:
  assumes "\<And>ty i d. \<not> P (HandlerUpdateOutputDevice ty i d)"
  shows "filter P (snd (snd (mapUpdateOutputDevice sdk sm dev ss))) = []"
  using assms by (induction ss) (auto simp: Let_def split: prod.split sum.split)

lemma updateOutputDevice_filter:
  assumes "\<And>ty i d. \<not> P (HandlerUpdateOutputDevice ty i d)" "\<And>l m. \<not> P (Log l m)"
  shows "filter P (snd (updateOutputDeviceForAllSessions sdk a sm)) = []"
  using assms(2) mapUpdateOutputDevice_filter[of P, OF assms(1)]
  by (simp add: updateOutputDevice_effects Let_def)

lemma mapUpdateOutputDevice_calls:
  "list_all2 (isOutputDeviceCallFor sdk sm dev) (takeWhile (handlerResolves sdk sm) ss)
     (snd (snd (mapUpdateOutputDevice sdk sm dev ss))) \<and>
   fst (snd (mapUpdateOutputDevice sdk sm dev ss)) =
     map (handlerCall sdk) (snd (snd (mapUpdateOutputDevice sdk sm dev ss))) \<and>
   (fst (mapUpdateOutputDevice sdk sm dev ss) = None \<longleftrightarrow> list_all (handlerResolves sdk sm) ss)"
  by (induction ss)
     (auto simp: handlerResolves_def isOutputDeviceCallFor_def Let_def split: sum.splits prod.split)

text \<open>
  C8, as amended. With a non-empty literal device id that is not in the output-device
  inventory, and a \<open>getValidDeviceId\<close> that resolves to devices of the inventory only,
  the update returns normally after a warning, whatever sessions are active: no handler is
  called.
\<close>

theorem updateOutputDevice_unknown_literal:
  assumes "resolvesToInventory sdk"
    and "d \<notin> d_deviceId ` set (outputDevices (getEnumeratedDevices sdk))"
    and "d \<noteq> []"
  shows "updateOutputDeviceForAllSessions sdk (DevString d) sm =
           (Fulfilled (), [Log warn ''Output deviceId not found. Not updating output media''])"
proof -
  have "getValidDeviceId sdk audiooutput (DevString d) \<noteq> Some d"
    using assms(1,2) by (auto simp: resolvesToInventory_def)
  then have "(case getValidDeviceId sdk audiooutput (DevString d) of None \<Rightarrow> [] | Some x \<Rightarrow> x) \<noteq> d"
    using assms(3) by (auto split: option.split)
  then show ?thesis by (simp add: updateOutputDeviceForAllSessions_def Let_def)
qed

text \<open>
  A device id that the inventory does not have.
\<close>

theorem updateOutputDevice_unknown_literal_witness:
  "resolvesToInventory exAllPresentSdk \<and>
   ''speaker-9'' \<notin> d_deviceId ` set (outputDevices (getEnumeratedDevices exAllPresentSdk)) \<and>
   ''speaker-9'' \<noteq> [] \<and>
   updateOutputDeviceForAllSessions exAllPresentSdk (DevString ''speaker-9'') exManager =
     (Fulfilled (), [Log warn ''Output deviceId not found. Not updating output media''])"
proof -
  have a: "resolvesToInventory exAllPresentSdk"
    by (simp add: resolvesToInventory_def exAllPresentSdk_def exSdk_def exSpeaker_def)
  have b: "''speaker-9'' \<notin> d_deviceId ` set (outputDevices (getEnumeratedDevices exAllPresentSdk))"
    by (simp add: exAllPresentSdk_def exSpeaker_def)
  have c: "''speaker-9'' \<noteq> []" by simp
  from updateOutputDevice_unknown_literal[OF a b c, of exManager] a b show ?thesis by simp
qed

text \<open>
  C8 as stated fails at the empty string when no output device resolves: the resolved
  id degrades to the empty string, which equals the argument, and both sessions are
  updated.
\<close>

theorem updateOutputDevice_empty_literal_counterexample:
  "resolvesToInventory exSdk \<and>
   [] \<notin> d_deviceId ` set (outputDevices (getEnumeratedDevices exSdk)) \<and>
   updateOutputDeviceForAllSessions exSdk (DevString []) exManager =
     (Fulfilled (),
      [Log info ''Updating output deviceId for all active sessions'',
       HandlerUpdateOutputDevice softphone ''s1'' [],
       HandlerUpdateOutputDevice collaborateVideo ''s2'' []])"
  by (simp add: resolvesToInventory_def updateOutputDeviceForAllSessions_def getAllActiveSessions_def
      getSessionHandler_def forJingleSession_def forFound_def fromJidOf_def Promise_all_def
      exSdk_def exManager_def exCall_def exMeeting_def)

text \<open>
  C10, as amended. With a boolean sentinel or \<open>null\<close> the warning branch is never
  taken: the first call is the log line of the update. After it, in order, each active
  session that is not a screen share gets one \<open>updateOutputDevice\<close> call of its handler
  with the resolved device id (the empty string when \<open>getValidDeviceId\<close> resolves to
  nothing), up to the first session whose handler cannot be resolved. When every handler
  resolves, every such session is called and the result joins the calls; otherwise the
  update rejects.
\<close>

theorem updateOutputDevice_sentinel_fans_out:
  assumes "outputDeviceId = DevBool b \<or> outputDeviceId = DevNull"
    and "deviceId = (case getValidDeviceId sdk audiooutput outputDeviceId of None \<Rightarrow> [] | Some d \<Rightarrow> d)"
  shows "\<exists>calls.
           snd (updateOutputDeviceForAllSessions sdk outputDeviceId sm) =
             Log info ''Updating output deviceId for all active sessions'' # calls \<and>
           list_all2 (isOutputDeviceCallFor sdk sm deviceId)
             (takeWhile (handlerResolves sdk sm) (outputTargets sm)) calls \<and>
           (list_all (handlerResolves sdk sm) (outputTargets sm) \<longrightarrow>
              fst (updateOutputDeviceForAllSessions sdk outputDeviceId sm) =
                Promise_all (map (handlerCall sdk) calls)) \<and>
           (\<not> list_all (handlerResolves sdk sm) (outputTargets sm) \<longrightarrow>
              (\<exists>e. fst (updateOutputDeviceForAllSessions sdk outputDeviceId sm) = Rejected e))"
proof -
  let ?ss = "filter (\<lambda>s. js_sessionType s \<noteq> Some acdScreenShare) (getAllActiveSessions sm)"
  let ?r = "mapUpdateOutputDevice sdk sm deviceId ?ss"
  have e: "updateOutputDeviceForAllSessions sdk outputDeviceId sm =
             ((case fst ?r of Some e \<Rightarrow> Rejected e | None \<Rightarrow> Promise_all (fst (snd ?r))),
              Log info ''Updating output deviceId for all active sessions'' # snd (snd ?r))"
    using assms
    by (auto simp: updateOutputDeviceForAllSessions_def Let_def case_prod_beta)
  from mapUpdateOutputDevice_calls[of sdk sm deviceId ?ss]
  show ?thesis unfolding e outputTargets_def by (cases "fst ?r") auto
qed

text \<open>
  The sentinel \<open>true\<close> with two active sessions.
\<close>

theorem updateOutputDevice_sentinel_fans_out_witness:
  "list_all (handlerResolves exAllPresentSdk exManager) (outputTargets exManager) \<and>
   takeWhile (handlerResolves exAllPresentSdk exManager) (outputTargets exManager) = [exCall, exMeeting] \<and>
   (\<exists>calls. updateOutputDeviceForAllSessions exAllPresentSdk (DevBool True) exManager =
       (Promise_all (map (handlerCall exAllPresentSdk) calls),
        Log info ''Updating output deviceId for all active sessions'' # calls) \<and>
      list_all2 (isOutputDeviceCallFor exAllPresentSdk exManager ''speaker-1'') [exCall, exMeeting] calls)"
proof -
  have t: "outputTargets exManager = [exCall, exMeeting]"
    by (simp add: outputTargets_def getAllActiveSessions_def exManager_def exCall_def exMeeting_def)
  have r: "list_all (handlerResolves exAllPresentSdk exManager) (outputTargets exManager)"
    unfolding t
    by (simp add: handlerResolves_def getSessionHandler_def forJingleSession_def forFound_def
      fromJidOf_def exAllPresentSdk_def exSdk_def exManager_def exCall_def exMeeting_def)
  then have w: "takeWhile (handlerResolves exAllPresentSdk exManager) (outputTargets exManager) =
                  [exCall, exMeeting]"
    unfolding t by simp
  have d: "''speaker-1'' =
     (case getValidDeviceId exAllPresentSdk audiooutput (DevBool True) of None \<Rightarrow> [] | Some d \<Rightarrow> d)"
    by (simp add: exAllPresentSdk_def)
  from updateOutputDevice_sentinel_fans_out[OF _ d, of True exManager] r w
  show ?thesis by (auto simp: prod_eq_iff)
qed

text \<open>
  C10 as stated fails where a handler cannot be resolved: the update stops at the
  stranger, and the call, an active softphone session, is not updated.
\<close>

theorem updateOutputDevice_unresolved_handler_counterexample:
  "exCall \<in> set (outputTargets exStrangerManager) \<and>
   updateOutputDeviceForAllSessions exAllPresentSdk (DevBool True) exStrangerManager =
     (Rejected (SdkError session ''Failed to find session handler for session''
        (GetSessionHandlerDetails (forJingleSession exStranger))),
      [Log info ''Updating output deviceId for all active sessions''])"
  by (simp add: outputTargets_def updateOutputDeviceForAllSessions_def getAllActiveSessions_def
      getSessionHandler_def fromJidOf_def forJingleSession_def forFound_def
      exStrangerManager_def exManager_def exAllPresentSdk_def exSdk_def
      exStranger_def exCall_def exMeeting_def)

section \<open>Device reconciliation\<close>

text \<open>
  Projections of the two loops, and what the first loop records.
\<close>

lemma checkTracks_fst_Cons:
  "fst (checkTracks devs s (t # ts) u) =
     fst (checkTracks devs s ts (if deviceExists devs t then u else flagTrack (js_id s) (t_kind t) u))"
  by (simp split: prod.split)

lemma checkTracks_snd_Cons:
  "snd (checkTracks devs s (t # ts) u) =
     (if deviceExists devs t then
        Log debug ''sessions outgoing track still has available device'' #
        snd (checkTracks devs s ts u)
      else
        Log info ''session lost media device and will attempt to switch devices'' #
        snd (checkTracks devs s ts (flagTrack (js_id s) (t_kind t) u)))"
  by (simp split: prod.split)

lemma findSessionsToUpdate_fst_Cons:
  "fst (findSessionsToUpdate sdk devs (s # ss) u f) =
     fst (findSessionsToUpdate sdk devs ss (fst (checkTracks devs s (outgoingTracks s) u))
            (f \<or> outputDeviceMissing sdk devs s))"
  by (simp add: Let_def split: prod.split)

lemma findSessionsToUpdate_snd_Cons:
  "snd (snd (findSessionsToUpdate sdk devs (s # ss) u f)) =
     snd (checkTracks devs s (outgoingTracks s) u) @
     (if outputDeviceMissing sdk devs s
      then [Log info ''session lost output device and will attempt to switch device''] else []) @
     snd (snd (findSessionsToUpdate sdk devs ss (fst (checkTracks devs s (outgoingTracks s) u))
                 (f \<or> outputDeviceMissing sdk devs s)))"
  by (simp add: Let_def split: prod.split)

lemma flagTrack_sets: "\<exists>m. map_of (flagTrack i k u) i = Some m \<and> flagged k m"
  by (cases k) (auto simp: flagTrack_def Let_def update_conv' split: option.split)

lemma flagTrack_keeps:
  "map_of u i = Some m \<Longrightarrow> flagged k m \<Longrightarrow> \<exists>m'. map_of (flagTrack j k' u) i = Some m' \<and> flagged k m'"
  by (cases k; cases k') (auto simp: flagTrack_def Let_def update_conv' split: option.split)

lemma checkTracks_keeps:
  "map_of u i = Some m \<Longrightarrow> flagged k m \<Longrightarrow>
     \<exists>m'. map_of (fst (checkTracks devs s ts u)) i = Some m' \<and> flagged k m'"
proof (induction ts arbitrary: u m)
  case Nil
  then show ?case by auto
next
  case (Cons t ts)
  show ?case
  proof (cases "deviceExists devs t")
    case True
    with Cons.IH[OF Cons.prems] show ?thesis by (simp only: checkTracks_fst_Cons if_True)
  next
    case False
    from flagTrack_keeps[OF Cons.prems, of "js_id s" "t_kind t"]
    obtain m' where "map_of (flagTrack (js_id s) (t_kind t) u) i = Some m'" "flagged k m'" by blast
    from Cons.IH[OF this] False show ?thesis by (simp only: checkTracks_fst_Cons if_False)
  qed
qed

lemma checkTracks_sets:
  "t \<in> set ts \<Longrightarrow> \<not> deviceExists devs t \<Longrightarrow>
     \<exists>m. map_of (fst (checkTracks devs s ts u)) (js_id s) = Some m \<and> flagged (t_kind t) m"
proof (induction ts arbitrary: u)
  case Nil
  then show ?case by simp
next
  case (Cons a ts)
  show ?case
  proof (cases "a = t")
    case True
    from flagTrack_sets[of "js_id s" "t_kind t" u]
    obtain m where "map_of (flagTrack (js_id s) (t_kind t) u) (js_id s) = Some m" "flagged (t_kind t) m"
      by blast
    from checkTracks_keeps[OF this, of devs s ts] True Cons.prems(2)
    show ?thesis by (simp only: checkTracks_fst_Cons if_False)
  next
    case False
    with Cons.prems have "t \<in> set ts" by simp
    from Cons.IH[OF this Cons.prems(2)] show ?thesis
      by (simp only: checkTracks_fst_Cons)
  qed
qed

lemma findSessionsToUpdate_keeps:
  "map_of u i = Some m \<Longrightarrow> flagged k m \<Longrightarrow>
     \<exists>m'. map_of (fst (findSessionsToUpdate sdk devs ss u f)) i = Some m' \<and> flagged k m'"
proof (induction ss arbitrary: u m f)
  case Nil
  then show ?case by auto
next
  case (Cons s ss)
  from checkTracks_keeps[OF Cons.prems, of devs s "outgoingTracks s"]
  obtain m' where "map_of (fst (checkTracks devs s (outgoingTracks s) u)) i = Some m'" "flagged k m'"
    by blast
  from Cons.IH[OF this] show ?case by (simp only: findSessionsToUpdate_fst_Cons)
qed

lemma findSessionsToUpdate_sets:
  "s \<in> set ss \<Longrightarrow> t \<in> set (outgoingTracks s) \<Longrightarrow> \<not> deviceExists devs t \<Longrightarrow>
     \<exists>m. map_of (fst (findSessionsToUpdate sdk devs ss u f)) (js_id s) = Some m \<and> flagged (t_kind t) m"
proof (induction ss arbitrary: u f)
  case Nil
  then show ?case by simp
next
  case (Cons a ss)
  show ?case
  proof (cases "a = s")
    case True
    from checkTracks_sets[OF Cons.prems(2,3), of s u]
    obtain m where "map_of (fst (checkTracks devs s (outgoingTracks s) u)) (js_id s) = Some m"
      "flagged (t_kind t) m" by blast
    from findSessionsToUpdate_keeps[OF this] True show ?thesis
      by (simp only: findSessionsToUpdate_fst_Cons)
  next
    case False
    with Cons.prems have "s \<in> set ss" by simp
    from Cons.IH[OF this Cons.prems(2,3)] show ?thesis by (simp only: findSessionsToUpdate_fst_Cons)
  qed
qed

lemma flagTrack_keys: "fst ` set (flagTrack i k u) = insert i (fst ` set u)"
  by (simp add: flagTrack_def Let_def dom_update)

lemma checkTracks_keys:
  "fst ` set (fst (checkTracks devs s ts u)) \<subseteq> insert (js_id s) (fst ` set u)"
proof (induction ts arbitrary: u)
  case Nil
  then show ?case by auto
next
  case (Cons t ts)
  show ?case
    using Cons.IH[of u] Cons.IH[of "flagTrack (js_id s) (t_kind t) u"] flagTrack_keys[of "js_id s" "t_kind t" u]
    by (simp only: checkTracks_fst_Cons split: if_split) auto
qed

lemma findSessionsToUpdate_keys:
  "fst ` set (fst (findSessionsToUpdate sdk devs ss u f)) \<subseteq> fst ` set u \<union> js_id ` set ss"
proof (induction ss arbitrary: u f)
  case Nil
  then show ?case by auto
next
  case (Cons s ss)
  show ?case
    using Cons.IH[of "fst (checkTracks devs s (outgoingTracks s) u)" "f \<or> outputDeviceMissing sdk devs s"]
      checkTracks_keys[of devs s "outgoingTracks s" u]
    by (simp only: findSessionsToUpdate_fst_Cons) auto
qed

lemma checkTracks_logs: "list_all isLog (snd (checkTracks devs s ts u))"
  by (induction ts arbitrary: u) (simp_all only: checkTracks_snd_Cons, simp_all)

lemma findSessionsToUpdate_logs: "list_all isLog (snd (snd (findSessionsToUpdate sdk devs ss u f)))"
  by (induction ss arbitrary: u f)
     (simp_all only: findSessionsToUpdate_snd_Cons, simp_all add: checkTracks_logs)

lemma checkTracks_present:
  "list_all (deviceExists devs) ts \<Longrightarrow>
     fst (checkTracks devs s ts u) = u \<and> list_all isLog (snd (checkTracks devs s ts u))"
  by (induction ts) (auto split: prod.split)

lemma findSessionsToUpdate_nothing:
  "list_all (\<lambda>s. list_all (deviceExists devs) (outgoingTracks s) \<and> \<not> outputDeviceMissing sdk devs s) ss \<Longrightarrow>
     fst (findSessionsToUpdate sdk devs ss u f) = u \<and>
     fst (snd (findSessionsToUpdate sdk devs ss u f)) = f \<and>
     list_all isLog (snd (snd (findSessionsToUpdate sdk devs ss u f)))"
proof (induction ss arbitrary: u f)
  case Nil
  then show ?case by simp
next
  case (Cons s ss)
  then have t: "list_all (deviceExists devs) (outgoingTracks s)"
    and o: "\<not> outputDeviceMissing sdk devs s" by simp_all
  from checkTracks_present[OF t, of s u] Cons.IH[of u f] Cons.prems o
  show ?case by (auto split: prod.split)
qed

text \<open>
  C7. When every outgoing track of every active session (the tracks of a screen-share
  stream apart) has a device of its label and kind in the inventory, and no session's
  output device is missing, the pass fulfils and makes no call but log lines.
\<close>

theorem validateOutgoingMediaTracks_noop:
  assumes "list_all (\<lambda>s. list_all (deviceExists (getEnumeratedDevices sdk)) (outgoingTracks s) \<and>
                          \<not> outputDeviceMissing sdk (getEnumeratedDevices sdk) s)
             (getAllActiveSessions sm)"
  shows "fst (validateOutgoingMediaTracks sdk sm) = Fulfilled () \<and>
         list_all isLog (snd (validateOutgoingMediaTracks sdk sm))"
  using findSessionsToUpdate_nothing[OF assms, of "[]" False]
  by (auto simp: validateOutgoingMediaTracks_def Let_def split: prod.split)

text \<open>
  The call and the meeting with every device present.
\<close>

theorem validateOutgoingMediaTracks_noop_witness:
  "list_all (\<lambda>s. list_all (deviceExists (getEnumeratedDevices exAllPresentSdk)) (outgoingTracks s) \<and>
                  \<not> outputDeviceMissing exAllPresentSdk (getEnumeratedDevices exAllPresentSdk) s)
     (getAllActiveSessions exManager) \<and>
   fst (validateOutgoingMediaTracks exAllPresentSdk exManager) = Fulfilled () \<and>
   list_all isLog (snd (validateOutgoingMediaTracks exAllPresentSdk exManager))"
proof -
  have a: "list_all (\<lambda>s. list_all (deviceExists (getEnumeratedDevices exAllPresentSdk)) (outgoingTracks s) \<and>
                  \<not> outputDeviceMissing exAllPresentSdk (getEnumeratedDevices exAllPresentSdk) s)
     (getAllActiveSessions exManager)"
    by (simp add: getAllActiveSessions_def exManager_def exCall_def exMeeting_def outgoingTracks_def
        trackIdsToIgnore_def List.map_filter_simps deviceExists_def outputDeviceMissing_def
        exAllPresentSdk_def exSdk_def exMic_def exCam_def exHeadset_def exFrontCamera_def exSpeaker_def)
  from validateOutgoingMediaTracks_noop[OF a] a show ?thesis by simp
qed

text \<open>
  The second loop.
\<close>

lemma removeAudioSenders_ok:
  "js_outboundStream s \<noteq> None \<Longrightarrow>
     fst (removeAudioSenders sdk handler s ts) = None \<and>
     snd (snd (removeAudioSenders sdk handler s ts)) = concat (map (removalCalls handler s) ts)"
  by (induction ts) (auto simp: Let_def removalCalls_def split: prod.split)

lemma removeAudioSenders_no_error:
  "fst (removeAudioSenders sdk handler s ts) = None \<Longrightarrow>
     snd (snd (removeAudioSenders sdk handler s ts)) = concat (map (removalCalls handler s) ts)"
proof (cases ts)
  case Nil
  then show ?thesis by simp
next
  case (Cons t rest)
  assume "fst (removeAudioSenders sdk handler s ts) = None"
  with Cons have "js_outboundStream s \<noteq> None"
    by (auto simp: Let_def split: option.splits)
  then show ?thesis by (simp add: removeAudioSenders_ok)
qed

lemma removeAudioSenders_filter:
  assumes "\<And>t. \<not> P (TrackStop t)" "\<And>ty i t. \<not> P (HandlerRemoveMediaFromSession ty i t)"
    "\<And>i t. \<not> P (OutboundStreamRemoveTrack i t)"
  shows "filter P (snd (snd (removeAudioSenders sdk handler s ts))) = []"
  using assms by (induction ts) (auto simp: Let_def split: prod.split option.split)

lemma updateVideo_effects:
  "snd (snd (updateVideo sdk devs handler s m)) =
     (if mu_video m \<and> videoDevices devs = [] then
        [Log warn ''no available video devices to switch to. setting video to mute for session'',
         HandlerSetVideoMute (sessionType handler) (js_id s) True]
      else [])"
  by (simp add: updateVideo_def Let_def)

lemma updateVideo_device:
  "fst (updateVideo sdk devs handler s m) =
     (if mu_video m \<and> videoDevices devs \<noteq> [] then Some (DevBool True) else None)"
  by (simp add: updateVideo_def Let_def)

lemma updateAudio_device:
  "fst (snd (updateAudio sdk devs handler s m)) =
     (if mu_audio m \<and> audioDevices devs \<noteq> [] then Some (DevBool True) else None)"
  by (simp add: updateAudio_def Let_def split: prod.split)

lemma updateAudio_effects:
  "snd (snd (snd (updateAudio sdk devs handler s m))) =
     (if mu_audio m \<and> audioDevices devs = [] then
        [Log warn ''no available audio devices to switch to. setting audio to mute for session'',
         HandlerSetAudioMute (sessionType handler) (js_id s) True] @
        snd (snd (removeAudioSenders sdk handler s (audioSenderTracks sdk handler s)))
      else [])"
  by (simp add: updateAudio_def Let_def audioSenderTracks_def split: prod.split)

lemma updateAudio_error:
  "fst (updateAudio sdk devs handler s m) =
     (if mu_audio m \<and> audioDevices devs = [] then
        fst (removeAudioSenders sdk handler s (audioSenderTracks sdk handler s))
      else None)"
  by (simp add: updateAudio_def Let_def audioSenderTracks_def split: prod.split)

lemma updateSession_found:
  assumes "getSession sm \<lparr>e_id = Some k, e_conversationId = None\<rparr> = Inr (Own s)"
    and "getSessionHandler sdk sm (forJingleSession s) = Inr handler"
  shows "fst (updateSession sdk sm devs (k, m)) = fst (updateAudio sdk devs handler s m)"
    and "snd (snd (updateSession sdk sm devs (k, m))) =
           snd (snd (updateVideo sdk devs handler s m)) @
           snd (snd (snd (updateAudio sdk devs handler s m))) @
           (if fst (updateAudio sdk devs handler s m) = None \<and>
               (fst (updateVideo sdk devs handler s m) \<noteq> None \<or>
                fst (snd (updateAudio sdk devs handler s m)) \<noteq> None)
            then [SdkUpdateOutgoingMedia
                    \<lparr>uo_sessionId = Some k,
                     uo_videoDeviceId = fst (updateVideo sdk devs handler s m),
                     uo_audioDeviceId = fst (snd (updateAudio sdk devs handler s m))\<rparr>]
            else [])"
  using assms
  by (auto simp: updateSession_def getSessionHandlerOfFound_def Let_def
      split: prod.split option.split)

lemma updateSession_not_found:
  "getSession sm \<lparr>e_id = Some k, e_conversationId = None\<rparr> = Inl e \<Longrightarrow>
     snd (snd (updateSession sdk sm devs (k, m))) = []"
  "getSession sm \<lparr>e_id = Some k, e_conversationId = None\<rparr> = Inr found \<Longrightarrow>
     getSessionHandlerOfFound sdk sm found = Inl e \<Longrightarrow>
     snd (snd (updateSession sdk sm devs (k, m))) = []"
  by (auto simp: updateSession_def Let_def)

lemma updateSession_unresolved:
  assumes "getSession sm \<lparr>e_id = Some k, e_conversationId = None\<rparr> = Inr (Own s)"
    and "getSessionHandler sdk sm (forJingleSession s) = Inl e"
  shows "fst (updateSession sdk sm devs (k, m)) = Some e"
  using assms by (simp add: updateSession_def getSessionHandlerOfFound_def Let_def)

lemma updateSessions_fst_Cons:
  "fst (updateSessions sdk sm devs (entry # rest)) =
     (case fst (updateSession sdk sm devs entry) of
        Some e \<Rightarrow> Some e
      | None \<Rightarrow> fst (updateSessions sdk sm devs rest))"
  by (auto simp: Let_def split: prod.split option.split)

lemma updateSessions_snd_Cons:
  "snd (snd (updateSessions sdk sm devs (entry # rest))) =
     snd (snd (updateSession sdk sm devs entry)) @
     (case fst (updateSession sdk sm devs entry) of
        Some e \<Rightarrow> []
      | None \<Rightarrow> snd (snd (updateSessions sdk sm devs rest)))"
  by (auto simp: Let_def split: prod.split option.split)

lemma updateSessions_all_ok:
  "list_all (\<lambda>entry. fst (updateSession sdk sm devs entry) = None) us \<Longrightarrow>
     fst (updateSessions sdk sm devs us) = None \<and>
     snd (snd (updateSessions sdk sm devs us)) =
       concat (map (\<lambda>entry. snd (snd (updateSession sdk sm devs entry))) us)"
  by (induction us) (simp_all only: updateSessions_fst_Cons updateSessions_snd_Cons, simp_all)

lemma updateSessions_no_error:
  "fst (updateSessions sdk sm devs us) = None \<Longrightarrow>
     list_all (\<lambda>entry. fst (updateSession sdk sm devs entry) = None) us"
  by (induction us) (simp_all only: updateSessions_fst_Cons, simp_all split: option.splits)

lemma updateSessions_filter:
  "list_all (\<lambda>entry. filter P (snd (snd (updateSession sdk sm devs entry))) = []) us \<Longrightarrow>
     filter P (snd (snd (updateSessions sdk sm devs us))) = []"
  by (induction us)
     (simp_all only: updateSessions_snd_Cons, simp_all split: option.split)

lemma validate_effects:
  "snd (validateOutgoingMediaTracks sdk sm) =
     (let devs = getEnumeratedDevices sdk;
          found = findSessionsToUpdate sdk devs (getAllActiveSessions sm) [] False;
          updates = fst found; flag = fst (snd found); es0 = snd (snd found)
      in if updates = [] \<and> \<not> flag then
           es0 @ [Log debug
              ''no active sessions have outgoing tracks that need to have the device updated'']
         else
           es0 @ snd (snd (updateSessions sdk sm devs updates)) @
           (if fst (updateSessions sdk sm devs updates) = None \<and> flag
            then snd (updateOutputDeviceForAllSessions sdk (DevBool True) sm) else []))"
  by (auto simp: validateOutgoingMediaTracks_def Let_def split: prod.split option.split)

lemma logs_filter:
  assumes "\<And>l m. \<not> P (Log l m)" "list_all isLog es"
  shows "filter P es = []"
  using assms(2)
proof (induction es)
  case Nil
  then show ?case by simp
next
  case (Cons e es)
  then show ?case using assms(1) by (cases e) auto
qed

lemma validate_filter:
  assumes "\<And>ty i d. \<not> P (HandlerUpdateOutputDevice ty i d)" "\<And>l m. \<not> P (Log l m)"
    and "\<And>entry. filter P (snd (snd (updateSession sdk sm (getEnumeratedDevices sdk) entry))) = []"
  shows "filter P (snd (validateOutgoingMediaTracks sdk sm)) = []"
proof -
  have u: "filter P (snd (snd (updateSessions sdk sm (getEnumeratedDevices sdk) us))) = []" for us
    by (rule updateSessions_filter) (simp add: assms(3) list_all_iff)
  have l: "filter P (snd (snd (findSessionsToUpdate sdk devs ss [] False))) = []" for devs ss
    by (rule logs_filter) (simp_all add: assms(2) findSessionsToUpdate_logs)
  show ?thesis
    using u l updateOutputDevice_filter[of P, OF assms(1,2)] assms(2)
    by (simp add: validate_effects Let_def)
qed

lemma getSession_stored:
  "storedUnderOwnId sm s \<Longrightarrow>
     getSession sm \<lparr>e_id = Some (js_id s), e_conversationId = None\<rparr> = Inr (Own s)"
  by (simp add: storedUnderOwnId_def getSession_def objectMember_def)

lemma stored_active:
  "storedUnderOwnId sm s \<Longrightarrow> js_active s \<Longrightarrow> s \<in> set (getAllActiveSessions sm)"
  by (force simp: storedUnderOwnId_def getAllActiveSessions_def dest: map_of_SomeD)

lemma roundsThrough_round:
  assumes "fst (updateSessions sdk sm devs (roundsThrough sid us)) = None"
    and "map_of us sid = Some m"
  shows "fst (updateSession sdk sm devs (sid, m)) = None \<and>
         set (snd (snd (updateSession sdk sm devs (sid, m))))
           \<subseteq> set (snd (snd (updateSessions sdk sm devs us)))"
  using assms
proof (induction us)
  case Nil
  then show ?case by simp
next
  case (Cons entry rest)
  show ?case
  proof (cases "fst entry = sid")
    case True
    with Cons.prems(2) have e: "entry = (sid, m)" by (cases entry) simp
    from True have r: "roundsThrough sid (entry # rest) = [entry]" by simp
    from Cons.prems(1)[unfolded r updateSessions_fst_Cons]
    have ok: "fst (updateSession sdk sm devs entry) = None" by (simp split: option.splits)
    have "set (snd (snd (updateSession sdk sm devs entry)))
            \<subseteq> set (snd (snd (updateSessions sdk sm devs (entry # rest))))"
      unfolding updateSessions_snd_Cons by simp
    with ok e show ?thesis by simp
  next
    case False
    then have r: "roundsThrough sid (entry # rest) = entry # roundsThrough sid rest" by simp
    from Cons.prems(1)[unfolded r updateSessions_fst_Cons]
    have ok: "fst (updateSession sdk sm devs entry) = None"
      and rest: "fst (updateSessions sdk sm devs (roundsThrough sid rest)) = None"
      by (simp_all split: option.splits)
    from False Cons.prems(2) have "map_of rest sid = Some m" by (cases entry) auto
    from Cons.IH[OF rest this]
    have ih: "fst (updateSession sdk sm devs (sid, m)) = None"
      "set (snd (snd (updateSession sdk sm devs (sid, m))))
         \<subseteq> set (snd (snd (updateSessions sdk sm devs rest)))"
      by simp_all
    have "set (snd (snd (updateSessions sdk sm devs rest)))
            \<subseteq> set (snd (snd (updateSessions sdk sm devs (entry # rest))))"
      unfolding updateSessions_snd_Cons using ok by simp
    with ih show ?thesis by blast
  qed
qed

lemma roundsThrough_no_error:
  "fst (updateSessions sdk sm devs us) = None \<Longrightarrow>
     fst (updateSessions sdk sm devs (roundsThrough sid us)) = None"
proof (induction us)
  case Nil
  then show ?case by simp
next
  case (Cons entry rest)
  from Cons.prems[unfolded updateSessions_fst_Cons]
  have ok: "fst (updateSession sdk sm devs entry) = None"
    and rest: "fst (updateSessions sdk sm devs rest) = None"
    by (simp_all split: option.splits)
  show ?case
  proof (cases "fst entry = sid")
    case True
    then have "roundsThrough sid (entry # rest) = [entry]" by simp
    then show ?thesis unfolding updateSessions_fst_Cons using ok
      by (simp only: updateSessions_fst_Cons) simp
  next
    case False
    then have "roundsThrough sid (entry # rest) = entry # roundsThrough sid rest" by simp
    then show ?thesis using ok Cons.IH[OF rest]
      by (simp only: updateSessions_fst_Cons) simp
  qed
qed

lemma no_error_through:
  "updateLoopError sdk sm = None \<Longrightarrow> updateLoopErrorThrough sdk sm sid = None"
  by (simp add: updateLoopError_def updateLoopErrorThrough_def roundsThrough_no_error)

lemma flagged_entry_effects:
  assumes run: "updateLoopErrorThrough sdk sm (js_id s) = None"
    and s: "s \<in> set (getAllActiveSessions sm)"
    and t: "t \<in> set (outgoingTracks s)" "\<not> deviceExists (getEnumeratedDevices sdk) t"
  shows "\<exists>m. flagged (t_kind t) m \<and>
           fst (updateSession sdk sm (getEnumeratedDevices sdk) (js_id s, m)) = None \<and>
           set (snd (snd (updateSession sdk sm (getEnumeratedDevices sdk) (js_id s, m))))
             \<subseteq> set (snd (validateOutgoingMediaTracks sdk sm))"
proof -
  let ?devs = "getEnumeratedDevices sdk"
  let ?found = "findSessionsToUpdate sdk ?devs (getAllActiveSessions sm) [] False"
  from findSessionsToUpdate_sets[OF s t, of sdk "[]" False]
  obtain m where m: "map_of (fst ?found) (js_id s) = Some m" "flagged (t_kind t) m" by blast
  then have "(js_id s, m) \<in> set (fst ?found)" by (simp add: map_of_SomeD)
  then have ne: "fst ?found \<noteq> []" by auto
  from run have "fst (updateSessions sdk sm ?devs (roundsThrough (js_id s) (fst ?found))) = None"
    by (simp add: updateLoopErrorThrough_def)
  from roundsThrough_round[OF this m(1)]
  have ok: "fst (updateSession sdk sm ?devs (js_id s, m)) = None"
    and sub: "set (snd (snd (updateSession sdk sm ?devs (js_id s, m))))
                 \<subseteq> set (snd (snd (updateSessions sdk sm ?devs (fst ?found))))"
    by simp_all
  from sub ne have "set (snd (snd (updateSession sdk sm ?devs (js_id s, m))))
                 \<subseteq> set (snd (validateOutgoingMediaTracks sdk sm))"
    by (auto simp: validate_effects Let_def)
  with m(2) ok show ?thesis by blast
qed

lemma updateSession_no_audio_switch:
  assumes "audioDevices devs = []"
  shows "filter isAudioSwitch (snd (snd (updateSession sdk sm devs entry))) = []"
proof (cases "getSession sm \<lparr>e_id = Some (fst entry), e_conversationId = None\<rparr>")
  case (Inl e)
  from updateSession_not_found(1)[OF this, of sdk devs "snd entry"] show ?thesis by simp
next
  case (Inr found)
  show ?thesis
  proof (cases "getSessionHandlerOfFound sdk sm found")
    case (Inl e)
    from updateSession_not_found(2)[OF Inr this, of devs "snd entry"] show ?thesis by simp
  next
    case (Inr resolved)
    then obtain handler s where found: "found = Own s"
      and h: "getSessionHandler sdk sm (forJingleSession s) = Inr handler"
      by (auto simp: getSessionHandlerOfFound_def split: Member.splits sum.splits)
    have r: "filter isAudioSwitch (snd (snd (removeAudioSenders sdk handler s ts))) = []" for ts
      by (rule removeAudioSenders_filter) simp_all
    from updateSession_found(2)[OF \<open>getSession sm _ = Inr found\<close>[unfolded found] h,
        of devs "snd entry"] assms r
    show ?thesis
      by (simp add: updateVideo_effects updateAudio_effects updateAudio_device)
  qed
qed

lemma updateSession_no_video_mute:
  assumes "videoDevices devs \<noteq> []"
  shows "filter isVideoMute (snd (snd (updateSession sdk sm devs entry))) = []"
proof (cases "getSession sm \<lparr>e_id = Some (fst entry), e_conversationId = None\<rparr>")
  case (Inl e)
  from updateSession_not_found(1)[OF this, of sdk devs "snd entry"] show ?thesis by simp
next
  case (Inr found)
  show ?thesis
  proof (cases "getSessionHandlerOfFound sdk sm found")
    case (Inl e)
    from updateSession_not_found(2)[OF Inr this, of devs "snd entry"] show ?thesis by simp
  next
    case (Inr resolved)
    then obtain handler s where found: "found = Own s"
      and h: "getSessionHandler sdk sm (forJingleSession s) = Inr handler"
      by (auto simp: getSessionHandlerOfFound_def split: Member.splits sum.splits)
    have r: "filter isVideoMute (snd (snd (removeAudioSenders sdk handler s ts))) = []" for ts
      by (rule removeAudioSenders_filter) simp_all
    from updateSession_found(2)[OF \<open>getSession sm _ = Inr found\<close>[unfolded found] h,
        of devs "snd entry"] assms r
    show ?thesis
      by (simp add: updateVideo_effects updateAudio_effects)
  qed
qed

lemma set_map_filter_id: "set (List.map_filter (\<lambda>x. x) xs) = {x. Some x \<in> set xs}"
  by (induction xs) (auto simp: List.map_filter_simps split: option.split)

text \<open>
  On a well-formed transport the second loop throws nothing.
\<close>

lemma getSession_keyed:
  assumes "transportOk sdk sm" "(k, s) \<in> set (jingleSessions sm)"
  shows "getSession sm \<lparr>e_id = Some (js_id s), e_conversationId = None\<rparr> = Inr (Own s)"
proof -
  from assms have k: "k = js_id s" "k \<noteq> []" and d: "distinct (map fst (jingleSessions sm))"
    by (auto simp: transportOk_def list_all_iff)
  from map_of_is_SomeI[OF d assms(2)] k show ?thesis
    by (simp add: getSession_def objectMember_def)
qed

lemma entry_ok:
  assumes "transportOk sdk sm" "(k, s) \<in> set (jingleSessions sm)"
  shows "fst (updateSession sdk sm devs (js_id s, m)) = None"
proof -
  from assms have h: "handlerResolves sdk sm s" and o: "js_outboundStream s \<noteq> None"
    by (auto simp: transportOk_def list_all_iff)
  from h obtain handler where r: "getSessionHandler sdk sm (forJingleSession s) = Inr handler"
    by (auto simp: handlerResolves_def split: sum.splits)
  show ?thesis
    using updateSession_found(1)[OF getSession_keyed[OF assms] r, of devs m]
      removeAudioSenders_ok[OF o]
    by (simp add: updateAudio_error)
qed

lemma entries_ok:
  assumes "transportOk sdk sm"
    and "fst ` set us \<subseteq> js_id ` set (getAllActiveSessions sm)"
  shows "list_all (\<lambda>entry. fst (updateSession sdk sm devs entry) = None) us"
proof -
  have "fst (updateSession sdk sm devs entry) = None" if "entry \<in> set us" for entry
  proof -
    from that assms(2) obtain s where "s \<in> set (getAllActiveSessions sm)" "fst entry = js_id s"
      by auto
    then obtain k where "(k, s) \<in> set (jingleSessions sm)"
      by (auto simp: getAllActiveSessions_def)
    from entry_ok[OF assms(1) this, of devs "snd entry"] \<open>fst entry = js_id s\<close>
    show ?thesis by (cases entry) simp
  qed
  then show ?thesis by (simp add: list_all_iff)
qed

lemma transportOk_no_error: "transportOk sdk sm \<Longrightarrow> updateLoopError sdk sm = None"
proof -
  assume ok: "transportOk sdk sm"
  let ?devs = "getEnumeratedDevices sdk"
  let ?found = "findSessionsToUpdate sdk ?devs (getAllActiveSessions sm) [] False"
  have keys: "fst ` set (fst ?found) \<subseteq> js_id ` set (getAllActiveSessions sm)"
    using findSessionsToUpdate_keys[of sdk ?devs "getAllActiveSessions sm" "[]" False] by simp
  from updateSessions_all_ok[OF entries_ok[OF ok keys]] show ?thesis
    by (simp add: updateLoopError_def)
qed

lemma exManager_ok: "transportOk exSdk exManager"
  by (simp add: transportOk_def handlerResolves_def getSessionHandler_def forJingleSession_def forFound_def
      fromJidOf_def exSdk_def exManager_def exCall_def exMeeting_def)

lemma exManager_ok2: "transportOk exCameraLostSdk exManager"
  by (simp add: transportOk_def handlerResolves_def getSessionHandler_def forJingleSession_def forFound_def
      fromJidOf_def exCameraLostSdk_def exSdk_def exManager_def exCall_def exMeeting_def)

lemma exStrangerLast_call_round: "updateLoopErrorThrough exSdk exStrangerLastManager ''s1'' = None"
  by code_simp

lemma exStrangerLast_meeting_round:
  "updateLoopErrorThrough exCameraLostSdk exStrangerLastManager ''s2'' = None"
  by code_simp

lemma exSdk_reports: "reportsSendersByKind exSdk"
  by (auto simp: reportsSendersByKind_def exSdk_def)

text \<open>
  C5, as amended. In a pass whose second loop throws nothing up to and including the
  round of the session, when an active session that is stored under its own id has an
  outgoing audio track with no device in the inventory and the inventory has no audio
  input device, the pass asks the session's handler to mute audio, and for every sender
  of the session whose track is an audio track it stops the track, asks the handler to
  remove it from the session and removes it from the outbound stream, the handler's
  \<open>getSendersByTrackType\<close> reporting every sender of the kind asked for. No
  \<open>updateOutgoingMedia\<close> of the pass carries an audio device id.
\<close>

theorem validate_mutes_audio_without_devices:
  assumes "updateLoopErrorThrough sdk sm (js_id s) = None"
    and "reportsSendersByKind sdk"
    and "storedUnderOwnId sm s" and "js_active s"
    and "t \<in> set (outgoingTracks s)" and "t_kind t = audio"
    and "\<not> deviceExists (getEnumeratedDevices sdk) t"
    and "audioDevices (getEnumeratedDevices sdk) = []"
    and "getSessionHandler sdk sm (forJingleSession s) = Inr handler"
  shows "HandlerSetAudioMute (sessionType handler) (js_id s) True
           \<in> set (snd (validateOutgoingMediaTracks sdk sm)) \<and>
         (Some track \<in> set (js_senders s) \<and> t_kind track = audio \<longrightarrow>
            TrackStop track \<in> set (snd (validateOutgoingMediaTracks sdk sm)) \<and>
            HandlerRemoveMediaFromSession (sessionType handler) (js_id s) track
              \<in> set (snd (validateOutgoingMediaTracks sdk sm)) \<and>
            OutboundStreamRemoveTrack (js_id s) track
              \<in> set (snd (validateOutgoingMediaTracks sdk sm))) \<and>
         filter isAudioSwitch (snd (validateOutgoingMediaTracks sdk sm)) = []"
proof -
  let ?devs = "getEnumeratedDevices sdk"
  let ?es = "snd (validateOutgoingMediaTracks sdk sm)"
  from flagged_entry_effects[OF assms(1) stored_active[OF assms(3,4)] assms(5,7)] assms(6)
  obtain m where m: "mu_audio m"
    and ok: "fst (updateSession sdk sm ?devs (js_id s, m)) = None"
    and sub: "set (snd (snd (updateSession sdk sm ?devs (js_id s, m)))) \<subseteq> set ?es"
    by auto
  note found = updateSession_found[OF getSession_stored[OF assms(3)] assms(9), of ?devs m]
  from ok found(1) m assms(8)
  have "fst (removeAudioSenders sdk handler s (audioSenderTracks sdk handler s)) = None"
    by (simp add: updateAudio_error)
  from removeAudioSenders_no_error[OF this]
  have audio: "snd (snd (snd (updateAudio sdk ?devs handler s m))) =
      [Log warn ''no available audio devices to switch to. setting audio to mute for session'',
       HandlerSetAudioMute (sessionType handler) (js_id s) True] @
      concat (map (removalCalls handler s) (audioSenderTracks sdk handler s))"
    using m assms(8) by (simp add: updateAudio_effects)
  have mute: "HandlerSetAudioMute (sessionType handler) (js_id s) True \<in> set ?es"
    using sub found(2) audio by auto
  have removed: "set (removalCalls handler s track) \<subseteq> set ?es"
    if "Some track \<in> set (js_senders s)" "t_kind track = audio"
  proof -
    from that assms(2)
    have "Some track \<in> set (getSendersByTrackType sdk (sessionType handler) s audio)"
      unfolding reportsSendersByKind_def by blast
    then have "track \<in> set (audioSenderTracks sdk handler s)"
      by (simp add: audioSenderTracks_def set_map_filter_id)
    then have "set (removalCalls handler s track)
                 \<subseteq> set (snd (snd (snd (updateAudio sdk ?devs handler s m))))"
      unfolding audio by auto
    with sub found(2) show ?thesis by auto
  qed
  have none: "filter isAudioSwitch ?es = []"
    by (rule validate_filter) (simp_all add: updateSession_no_audio_switch[OF assms(8)])
  from mute removed none show ?thesis by (auto simp: removalCalls_def)
qed

text \<open>
  The call loses its microphone and no audio input is left: on the transport where every
  handler resolves, and on the one where the stranger, whose handler cannot be resolved,
  is listed after the call, so that the pass rejects after the call was muted and its
  microphone removed.
\<close>

theorem validate_mutes_audio_without_devices_witness:
  "updateLoopErrorThrough exSdk exManager (js_id exCall) = None \<and>
   updateLoopError exSdk exManager = None \<and>
   reportsSendersByKind exSdk \<and> storedUnderOwnId exManager exCall \<and>
   js_active exCall \<and> exMic \<in> set (outgoingTracks exCall) \<and> t_kind exMic = audio \<and>
   \<not> deviceExists (getEnumeratedDevices exSdk) exMic \<and>
   audioDevices (getEnumeratedDevices exSdk) = [] \<and>
   getSessionHandler exSdk exManager (forJingleSession exCall) =
     Inr \<lparr>sessionType = softphone, disabled = False\<rparr> \<and>
   Some exMic \<in> set (js_senders exCall) \<and>
   HandlerSetAudioMute softphone ''s1'' True \<in> set (snd (validateOutgoingMediaTracks exSdk exManager)) \<and>
   TrackStop exMic \<in> set (snd (validateOutgoingMediaTracks exSdk exManager)) \<and>
   HandlerRemoveMediaFromSession softphone ''s1'' exMic
     \<in> set (snd (validateOutgoingMediaTracks exSdk exManager)) \<and>
   OutboundStreamRemoveTrack ''s1'' exMic \<in> set (snd (validateOutgoingMediaTracks exSdk exManager)) \<and>
   filter isAudioSwitch (snd (validateOutgoingMediaTracks exSdk exManager)) = [] \<and>
   updateLoopErrorThrough exSdk exStrangerLastManager (js_id exCall) = None \<and>
   updateLoopError exSdk exStrangerLastManager \<noteq> None \<and>
   storedUnderOwnId exStrangerLastManager exCall \<and>
   getSessionHandler exSdk exStrangerLastManager (forJingleSession exCall) =
     Inr \<lparr>sessionType = softphone, disabled = False\<rparr> \<and>
   HandlerSetAudioMute softphone ''s1'' True
     \<in> set (snd (validateOutgoingMediaTracks exSdk exStrangerLastManager)) \<and>
   TrackStop exMic \<in> set (snd (validateOutgoingMediaTracks exSdk exStrangerLastManager)) \<and>
   HandlerRemoveMediaFromSession softphone ''s1'' exMic
     \<in> set (snd (validateOutgoingMediaTracks exSdk exStrangerLastManager)) \<and>
   OutboundStreamRemoveTrack ''s1'' exMic
     \<in> set (snd (validateOutgoingMediaTracks exSdk exStrangerLastManager)) \<and>
   filter isAudioSwitch (snd (validateOutgoingMediaTracks exSdk exStrangerLastManager)) = []"
proof -
  have i: "js_id exCall = ''s1''" by (simp add: exCall_def)
  note r0 = transportOk_no_error[OF exManager_ok]
  note r = no_error_through[OF r0, of "js_id exCall"]
  have r2: "updateLoopErrorThrough exSdk exStrangerLastManager (js_id exCall) = None"
    unfolding i by (rule exStrangerLast_call_round)
  have z: "updateLoopError exSdk exStrangerLastManager \<noteq> None" by code_simp
  note p = exSdk_reports
  have a: "storedUnderOwnId exManager exCall"
    by (simp add: storedUnderOwnId_def exManager_def exCall_def)
  have a2: "storedUnderOwnId exStrangerLastManager exCall"
    by (simp add: storedUnderOwnId_def exStrangerLastManager_def exManager_def exCall_def)
  have b: "js_active exCall" by (simp add: exCall_def)
  have c: "exMic \<in> set (outgoingTracks exCall)"
    by (simp add: outgoingTracks_def trackIdsToIgnore_def exCall_def List.map_filter_simps)
  have d: "t_kind exMic = audio" by (simp add: exMic_def)
  have e: "\<not> deviceExists (getEnumeratedDevices exSdk) exMic"
    by (simp add: deviceExists_def exSdk_def)
  have f: "audioDevices (getEnumeratedDevices exSdk) = []" by (simp add: exSdk_def)
  have g: "getSessionHandler exSdk exManager (forJingleSession exCall) =
     Inr \<lparr>sessionType = softphone, disabled = False\<rparr>"
    by (simp add: getSessionHandler_def forJingleSession_def forFound_def fromJidOf_def exSdk_def
        exManager_def exCall_def)
  have g2: "getSessionHandler exSdk exStrangerLastManager (forJingleSession exCall) =
     Inr \<lparr>sessionType = softphone, disabled = False\<rparr>"
    by (simp add: getSessionHandler_def forJingleSession_def forFound_def fromJidOf_def exSdk_def
        exStrangerLastManager_def exManager_def exCall_def)
  have h: "Some exMic \<in> set (js_senders exCall)" by (simp add: exCall_def)
  from validate_mutes_audio_without_devices[OF r p a b c d e f g, of exMic]
    validate_mutes_audio_without_devices[OF r2 p a2 b c d e f g2, of exMic]
  show ?thesis using r0 r r2 z p a a2 b c d e f g g2 h i by simp
qed

text \<open>
  C5 as stated fails where the loop throws before it reaches the session: the
  stranger's handler cannot be resolved, the pass rejects after the log lines of the first
  loop, and the call, whose microphone is gone, is not muted.
\<close>

theorem validate_aborted_before_audio_mute_counterexample:
  "storedUnderOwnId exStrangerManager exCall \<and> js_active exCall \<and>
   exMic \<in> set (outgoingTracks exCall) \<and> t_kind exMic = audio \<and>
   \<not> deviceExists (getEnumeratedDevices exSdk) exMic \<and>
   audioDevices (getEnumeratedDevices exSdk) = [] \<and>
   validateOutgoingMediaTracks exSdk exStrangerManager =
     (Rejected (SdkError session ''Failed to find session handler for session''
        (GetSessionHandlerDetails (forJingleSession exStranger))),
      exStrangerPassLogs) \<and>
   list_all isLog exStrangerPassLogs"
  by code_simp

text \<open>
  C6, as amended. In a pass whose second loop throws nothing up to and including the
  round of the session, when an active session that is stored under its own id has an
  outgoing video track with no device in the inventory and the inventory has a video
  input device, the pass calls \<open>updateOutgoingMedia\<close> for that session with the video
  device id \<open>true\<close>, and asks no handler to mute video.
\<close>

theorem validate_switches_video_when_devices_remain:
  assumes "updateLoopErrorThrough sdk sm (js_id s) = None"
    and "storedUnderOwnId sm s" and "js_active s"
    and "t \<in> set (outgoingTracks s)" and "t_kind t = video"
    and "\<not> deviceExists (getEnumeratedDevices sdk) t"
    and "videoDevices (getEnumeratedDevices sdk) \<noteq> []"
  shows "(\<exists>audioDeviceId.
            SdkUpdateOutgoingMedia
              \<lparr>uo_sessionId = Some (js_id s), uo_videoDeviceId = Some (DevBool True),
               uo_audioDeviceId = audioDeviceId\<rparr>
              \<in> set (snd (validateOutgoingMediaTracks sdk sm))) \<and>
         filter isVideoMute (snd (validateOutgoingMediaTracks sdk sm)) = []"
proof -
  let ?devs = "getEnumeratedDevices sdk"
  let ?es = "snd (validateOutgoingMediaTracks sdk sm)"
  from flagged_entry_effects[OF assms(1) stored_active[OF assms(2,3)] assms(4,6)] assms(5)
  obtain m where m: "mu_video m"
    and ok: "fst (updateSession sdk sm ?devs (js_id s, m)) = None"
    and sub: "set (snd (snd (updateSession sdk sm ?devs (js_id s, m)))) \<subseteq> set ?es"
    by auto
  obtain handler where h: "getSessionHandler sdk sm (forJingleSession s) = Inr handler"
    using ok updateSession_unresolved[OF getSession_stored[OF assms(2)], of sdk _ ?devs m]
    by (cases "getSessionHandler sdk sm (forJingleSession s)") auto
  note found = updateSession_found[OF getSession_stored[OF assms(2)] h, of ?devs m]
  from ok found(1)
  have noerr: "fst (updateAudio sdk ?devs handler s m) = None" by simp
  have "SdkUpdateOutgoingMedia
          \<lparr>uo_sessionId = Some (js_id s), uo_videoDeviceId = Some (DevBool True),
           uo_audioDeviceId = fst (snd (updateAudio sdk ?devs handler s m))\<rparr>
        \<in> set (snd (snd (updateSession sdk sm ?devs (js_id s, m))))"
    using found(2) noerr m assms(7) by (simp add: updateVideo_device)
  with sub have a: "\<exists>audioDeviceId.
            SdkUpdateOutgoingMedia
              \<lparr>uo_sessionId = Some (js_id s), uo_videoDeviceId = Some (DevBool True),
               uo_audioDeviceId = audioDeviceId\<rparr> \<in> set ?es"
    by blast
  have b: "filter isVideoMute ?es = []"
    by (rule validate_filter) (simp_all add: updateSession_no_video_mute[OF assms(7)])
  from a b show ?thesis by simp
qed

text \<open>
  The meeting loses its camera and another camera is left: on the transport where every
  handler resolves, and on the one where the stranger is listed after the meeting, so
  that the pass rejects after the switch was issued.
\<close>

theorem validate_switches_video_when_devices_remain_witness:
  "updateLoopErrorThrough exCameraLostSdk exManager (js_id exMeeting) = None \<and>
   updateLoopError exCameraLostSdk exManager = None \<and> storedUnderOwnId exManager exMeeting \<and>
   js_active exMeeting \<and> exCam \<in> set (outgoingTracks exMeeting) \<and> t_kind exCam = video \<and>
   \<not> deviceExists (getEnumeratedDevices exCameraLostSdk) exCam \<and>
   videoDevices (getEnumeratedDevices exCameraLostSdk) \<noteq> [] \<and>
   (\<exists>audioDeviceId.
      SdkUpdateOutgoingMedia
        \<lparr>uo_sessionId = Some ''s2'', uo_videoDeviceId = Some (DevBool True),
         uo_audioDeviceId = audioDeviceId\<rparr>
        \<in> set (snd (validateOutgoingMediaTracks exCameraLostSdk exManager))) \<and>
   filter isVideoMute (snd (validateOutgoingMediaTracks exCameraLostSdk exManager)) = [] \<and>
   updateLoopErrorThrough exCameraLostSdk exStrangerLastManager (js_id exMeeting) = None \<and>
   updateLoopError exCameraLostSdk exStrangerLastManager \<noteq> None \<and>
   storedUnderOwnId exStrangerLastManager exMeeting \<and>
   (\<exists>audioDeviceId.
      SdkUpdateOutgoingMedia
        \<lparr>uo_sessionId = Some ''s2'', uo_videoDeviceId = Some (DevBool True),
         uo_audioDeviceId = audioDeviceId\<rparr>
        \<in> set (snd (validateOutgoingMediaTracks exCameraLostSdk exStrangerLastManager))) \<and>
   filter isVideoMute (snd (validateOutgoingMediaTracks exCameraLostSdk exStrangerLastManager)) = []"
proof -
  note r0 = transportOk_no_error[OF exManager_ok2]
  note r = no_error_through[OF r0, of "js_id exMeeting"]
  have i: "js_id exMeeting = ''s2''" by (simp add: exMeeting_def)
  have r2: "updateLoopErrorThrough exCameraLostSdk exStrangerLastManager (js_id exMeeting) = None"
    unfolding i by (rule exStrangerLast_meeting_round)
  have z: "updateLoopError exCameraLostSdk exStrangerLastManager \<noteq> None" by code_simp
  have a: "storedUnderOwnId exManager exMeeting"
    by (simp add: storedUnderOwnId_def exManager_def exMeeting_def)
  have a2: "storedUnderOwnId exStrangerLastManager exMeeting"
    by (simp add: storedUnderOwnId_def exStrangerLastManager_def exManager_def exMeeting_def)
  have b: "js_active exMeeting" by (simp add: exMeeting_def)
  have c: "exCam \<in> set (outgoingTracks exMeeting)"
    by (simp add: outgoingTracks_def trackIdsToIgnore_def exMeeting_def List.map_filter_simps)
  have d: "t_kind exCam = video" by (simp add: exCam_def)
  have e: "\<not> deviceExists (getEnumeratedDevices exCameraLostSdk) exCam"
    by (simp add: deviceExists_def exCameraLostSdk_def exCam_def exUsbCamera_def)
  have f: "videoDevices (getEnumeratedDevices exCameraLostSdk) \<noteq> []"
    by (simp add: exCameraLostSdk_def)
  from validate_switches_video_when_devices_remain[OF r a b c d e f]
    validate_switches_video_when_devices_remain[OF r2 a2 b c d e f]
  show ?thesis using r0 r r2 z a a2 b c d e f i by simp
qed

text \<open>
  C6 as stated fails where the loop throws before it reaches the session: the pass
  rejects at the stranger, and no device switch is issued for the meeting.
\<close>

theorem validate_aborted_before_video_switch_counterexample:
  "storedUnderOwnId exStrangerManager exMeeting \<and> js_active exMeeting \<and>
   exCam \<in> set (outgoingTracks exMeeting) \<and> t_kind exCam = video \<and>
   \<not> deviceExists (getEnumeratedDevices exCameraLostSdk) exCam \<and>
   videoDevices (getEnumeratedDevices exCameraLostSdk) \<noteq> [] \<and>
   validateOutgoingMediaTracks exCameraLostSdk exStrangerManager =
     (Rejected (SdkError session ''Failed to find session handler for session''
        (GetSessionHandlerDetails (forJingleSession exStranger))),
      exStrangerCameraPassLogs) \<and>
   list_all isLog exStrangerCameraPassLogs"
  by code_simp

end
